theory Spec2Isabelle
  imports Main "HOL-Library.Sublist" "HOL-Library.Log_Nat"
begin

section \<open>JavaScript values used by the application\<close>

subsection \<open>Strings\<close>

text \<open>
  A JavaScript string is a sequence of UTF-16 code units. The model uses \<^typ>\<open>string\<close>,
  so it covers the code units below 256; \<open>length\<close> is the \<open>.length\<close> of the source.
\<close>

text \<open>
  \<open>String.prototype.slice(start, end)\<close>: a negative index counts from the end, both
  indices are clamped to the string, and an empty range gives the empty string.
  \<open>None\<close> stands for an omitted \<open>end\<close>.
\<close>

definition clamp_index :: "int \<Rightarrow> int \<Rightarrow> int" where
  "clamp_index len i = (if i < 0 then max (len + i) 0 else min i len)"

definition slice :: "string \<Rightarrow> int \<Rightarrow> int option \<Rightarrow> string" where
  "slice s start end =
     (let len = int (length s);
          from = clamp_index len start;
          to = (case end of None \<Rightarrow> len | Some e \<Rightarrow> clamp_index len e)
      in take (nat (to - from)) (drop (nat from) s))"

text \<open>\<open>String.prototype.includes(sub)\<close>: \<open>sub\<close> occurs in \<open>s\<close> as a contiguous run.\<close>

fun str_includes :: "string \<Rightarrow> string \<Rightarrow> bool" where
  "str_includes [] sub = (sub = [])"
| "str_includes (c # cs) sub = (prefix sub (c # cs) \<or> str_includes cs sub)"

text \<open>
  \<open>String.prototype.trim()\<close> removes white space and line terminators at both ends.
  Of these, the code units below 256 are TAB, LF, VT, FF, CR, SPACE and NO-BREAK SPACE.
\<close>

definition is_js_space :: "char \<Rightarrow> bool" where
  "is_js_space c = ((of_char c :: nat) \<in> {9, 10, 11, 12, 13, 32, 160})"

definition trim_start :: "string \<Rightarrow> string" where
  "trim_start s = dropWhile is_js_space s"

definition trim :: "string \<Rightarrow> string" where
  "trim s = rev (dropWhile is_js_space (rev (dropWhile is_js_space s)))"


subsection \<open>Numbers\<close>

text \<open>
  A JavaScript Number is an IEEE 754 binary64 value. A finite one is modelled by the
  rational it denotes, so every operation below is exact arithmetic followed by one
  rounding to the nearest double, ties to even. The two zeros are identified: no
  operation of the modelled code tells them apart.
\<close>

datatype js_number = NaN | PosInf | NegInf | Finite rat

definition pow2 :: "int \<Rightarrow> rat" where
  "pow2 e = (if 0 \<le> e then 2 ^ nat e else 1 / 2 ^ nat (- e))"

definition pow10 :: "int \<Rightarrow> rat" where
  "pow10 e = (if 0 \<le> e then 10 ^ nat e else 1 / 10 ^ nat (- e))"

text \<open>The binary exponent of a positive rational: \<open>2 ^ e \<le> q < 2 ^ (e + 1)\<close>.\<close>

definition floor_log2 :: "rat \<Rightarrow> int" where
  "floor_log2 q = (if 1 \<le> q then bitlen \<lfloor>q\<rfloor> - 1 else - bitlen (\<lceil>1 / q\<rceil> - 1))"

definition round_half_even :: "rat \<Rightarrow> int" where
  "round_half_even x =
     (let f = \<lfloor>x\<rfloor>; r = x - of_int f
      in if r < 1 / 2 then f else if 1 / 2 < r then f + 1 else if even f then f else f + 1)"

text \<open>
  Rounding a positive rational to binary64: 53 significant bits, the smallest quantum
  \<open>2 ^ -1074\<close> (subnormals), and overflow once the rounded value reaches \<open>2 ^ 1024\<close>
  (\<open>None\<close>).
\<close>

definition round_pos :: "rat \<Rightarrow> rat option" where
  "round_pos q =
     (let ex = max (floor_log2 q - 52) (- 1074);
          r = of_int (round_half_even (q / pow2 ex)) * pow2 ex
      in if r < pow2 1024 then Some r else None)"

definition round_double :: "rat \<Rightarrow> js_number" where
  "round_double q =
     (if q = 0 then Finite 0
      else if 0 < q then (case round_pos q of Some r \<Rightarrow> Finite r | None \<Rightarrow> PosInf)
      else (case round_pos (- q) of Some r \<Rightarrow> Finite (- r) | None \<Rightarrow> NegInf))"

fun num_neg :: "js_number \<Rightarrow> js_number" where
  "num_neg NaN = NaN"
| "num_neg PosInf = NegInf"
| "num_neg NegInf = PosInf"
| "num_neg (Finite q) = Finite (- q)"

text \<open>The operator \<open>*\<close>.\<close>

fun num_mul :: "js_number \<Rightarrow> js_number \<Rightarrow> js_number" where
  "num_mul NaN y = NaN"
| "num_mul x NaN = NaN"
| "num_mul (Finite a) (Finite b) = round_double (a * b)"
| "num_mul (Finite a) PosInf = (if a = 0 then NaN else if 0 < a then PosInf else NegInf)"
| "num_mul (Finite a) NegInf = (if a = 0 then NaN else if 0 < a then NegInf else PosInf)"
| "num_mul PosInf (Finite b) = (if b = 0 then NaN else if 0 < b then PosInf else NegInf)"
| "num_mul NegInf (Finite b) = (if b = 0 then NaN else if 0 < b then NegInf else PosInf)"
| "num_mul PosInf PosInf = PosInf"
| "num_mul PosInf NegInf = NegInf"
| "num_mul NegInf PosInf = NegInf"
| "num_mul NegInf NegInf = PosInf"

text \<open>The operator \<open>/\<close>; a zero divisor is read as \<open>+0\<close>.\<close>

fun num_div :: "js_number \<Rightarrow> js_number \<Rightarrow> js_number" where
  "num_div NaN y = NaN"
| "num_div x NaN = NaN"
| "num_div (Finite a) (Finite b) =
     (if b = 0 then (if a = 0 then NaN else if 0 < a then PosInf else NegInf)
      else round_double (a / b))"
| "num_div (Finite a) PosInf = Finite 0"
| "num_div (Finite a) NegInf = Finite 0"
| "num_div PosInf (Finite b) = (if 0 \<le> b then PosInf else NegInf)"
| "num_div NegInf (Finite b) = (if 0 \<le> b then NegInf else PosInf)"
| "num_div PosInf y = NaN"
| "num_div NegInf y = NaN"

text \<open>The operators \<open><\<close> and \<open><=\<close>: false as soon as one side is \<open>NaN\<close>.\<close>

fun num_less :: "js_number \<Rightarrow> js_number \<Rightarrow> bool" where
  "num_less NaN y = False"
| "num_less x NaN = False"
| "num_less (Finite a) (Finite b) = (a < b)"
| "num_less NegInf NegInf = False"
| "num_less NegInf y = True"
| "num_less x NegInf = False"
| "num_less PosInf y = False"
| "num_less (Finite a) PosInf = True"

fun num_le :: "js_number \<Rightarrow> js_number \<Rightarrow> bool" where
  "num_le NaN y = False"
| "num_le x NaN = False"
| "num_le (Finite a) (Finite b) = (a \<le> b)"
| "num_le NegInf y = True"
| "num_le x PosInf = True"
| "num_le PosInf y = False"
| "num_le (Finite a) NegInf = False"

fun isNaN :: "js_number \<Rightarrow> bool" where
  "isNaN NaN = True"
| "isNaN x = False"

text \<open>
  \<open>Math.round(x)\<close>: the integral Number closest to \<open>x\<close>, the larger one when two are
  equally close; \<open>NaN\<close> and the infinities are returned as they are.
\<close>

fun Math_round :: "js_number \<Rightarrow> js_number" where
  "Math_round (Finite q) = Finite (of_int \<lfloor>q + 1 / 2\<rfloor>)"
| "Math_round x = x"

text \<open>\<open>Number(n)\<close> of a BigInt \<open>n\<close>: the nearest double.\<close>

definition Number_of_bigint :: "int \<Rightarrow> js_number" where
  "Number_of_bigint n = round_double (of_int n)"

text \<open>
  \<open>parseFloat\<close>: leading white space is skipped, then the longest prefix that is a
  \<open>StrDecimalLiteral\<close> is read (an optional sign, then \<open>Infinity\<close>, or digits with an
  optional fraction and an optional exponent); with no such prefix the result is
  \<open>NaN\<close>. The literal's value is rounded to the nearest double (for more than 20
  significant digits ECMAScript leaves the last place to the engine; the engines round
  correctly).
\<close>

definition is_digit :: "char \<Rightarrow> bool" where
  "is_digit c = (48 \<le> (of_char c :: nat) \<and> (of_char c :: nat) \<le> 57)"

definition digits_value :: "string \<Rightarrow> int" where
  "digits_value ds = foldl (\<lambda>a c. 10 * a + (int (of_char c) - 48)) 0 ds"

definition parse_sign :: "string \<Rightarrow> bool \<times> string" where
  "parse_sign s =
     (case s of
        [] \<Rightarrow> (False, [])
      | c # cs \<Rightarrow>
          if c = CHR ''-'' then (True, cs)
          else if c = CHR ''+'' then (False, cs)
          else (False, s))"

definition parse_exponent :: "string \<Rightarrow> int" where
  "parse_exponent s =
     (case s of
        [] \<Rightarrow> 0
      | c # cs \<Rightarrow>
          if c = CHR ''e'' \<or> c = CHR ''E'' then
            (let (neg, r) = parse_sign cs; ds = takeWhile is_digit r
             in if ds = [] then 0 else if neg then - digits_value ds else digits_value ds)
          else 0)"

definition parse_unsigned :: "string \<Rightarrow> js_number" where
  "parse_unsigned s =
     (if prefix ''Infinity'' s then PosInf
      else
        (let ip = takeWhile is_digit s;
             r1 = dropWhile is_digit s;
             (fp, r2) =
               (case r1 of
                  [] \<Rightarrow> ([], [])
                | c # cs \<Rightarrow>
                    if c = CHR ''.'' then (takeWhile is_digit cs, dropWhile is_digit cs)
                    else ([], r1))
         in if ip = [] \<and> fp = [] then NaN
            else round_double
                   (of_int (digits_value (ip @ fp)) * pow10 (parse_exponent r2 - int (length fp)))))"

definition parseFloat :: "string \<Rightarrow> js_number" where
  "parseFloat s =
     (let (neg, r) = parse_sign (trim_start s)
      in if neg then num_neg (parse_unsigned r) else parse_unsigned r)"

subsection \<open>Thrown values\<close>

text \<open>
  What a \<open>catch\<close> clause receives: an \<open>Error\<close> instance with its \<open>name\<close> and
  \<open>message\<close>, or any other value.
\<close>

datatype js_thrown = JsError (err_name: string) (err_message: string) | NonError


section \<open>Display helpers of \<open>lib/constants\<close>\<close>

text \<open>
  \<^verbatim>\<open>
  export function truncateAddress(address: string, chars: number = 4): string {
    if (address.length <= chars * 2 + 3) return address;
    return `${address.slice(0, chars)}...${address.slice(-chars)}`;
  }
  \<close>
  \<open>chars\<close> is modelled as an integer. For an integral \<open>chars\<close> the double arithmetic of
  \<open>chars * 2 + 3\<close> is exact below \<open>2^53\<close>, and above it both the exact and the rounded
  bound exceed every string length.
\<close>

definition truncateAddress :: "string \<Rightarrow> int \<Rightarrow> string" where
  "truncateAddress address chars =
     (if int (length address) \<le> chars * 2 + 3 then address
      else slice address 0 (Some chars) @ ''...'' @ slice address (- chars) None)"

definition USDC_MINT_DEVNET :: string where
  "USDC_MINT_DEVNET = ''4zMMC9srt5Ri5X14GAgXhaHii3GnPAEERYPJgZJDncDU''"


section \<open>The external collaborators\<close>

text \<open>
  Public keys are modelled by their base58 text. The two program ids are the constants
  of the token library.
\<close>

type_synonym pubkey = string

definition TOKEN_PROGRAM_ID :: pubkey where
  "TOKEN_PROGRAM_ID = ''TokenkegQfeZyiNwAJbNbGKPFXCWuBvf9Ss623VQ5DA''"

definition ASSOCIATED_TOKEN_PROGRAM_ID :: pubkey where
  "ASSOCIATED_TOKEN_PROGRAM_ID = ''ATokenGPvbdGVxr1b2hvZbsiqW5xWH25efTNsLJA8knL''"

text \<open>
  The instructions the form builds, with the arguments in the order of the library's
  constructors: \<open>createAssociatedTokenAccountInstruction(payer, ata, owner, mint,
  programId, associatedTokenProgramId)\<close> and \<open>createTransferInstruction(source,
  destination, owner, amount, multiSigners, programId)\<close>.
\<close>

datatype instruction =
    CreateAssociatedTokenAccount pubkey pubkey pubkey pubkey pubkey pubkey
  | Transfer pubkey pubkey pubkey int "pubkey list" pubkey

text \<open>
  Everything the components call but do not implement is a field of the environment:
  the wallet hook (\<open>smartWalletPubkey\<close>, \<open>wallet?.smartWallet\<close>,
  \<open>signAndSendTransaction(instructions, feeToken)\<close>), the key constructor, the
  derivation of token-account addresses, the two RPC queries and the engine's
  formatting of numbers. A call that throws or rejects returns \<open>Inl\<close>.
  \<open>getAccount env i\<close> is the network's answer to the \<open>i\<close>-th account query of one
  run (counted from 0); the answer is the account's \<open>amount\<close>, a BigInt.
\<close>

record env =
  smartWalletPubkey :: "pubkey option"
  wallet_smartWallet :: "string option"
  signAndSendTransaction :: "instruction list \<Rightarrow> string \<Rightarrow> js_thrown + string"
  PublicKey_new :: "string \<Rightarrow> js_thrown + pubkey"
  getAssociatedTokenAddress :: "pubkey \<Rightarrow> pubkey \<Rightarrow> bool \<Rightarrow> js_thrown + pubkey"
  getAccount :: "nat \<Rightarrow> pubkey \<Rightarrow> js_thrown + int"
  getBalance :: "pubkey \<Rightarrow> js_thrown + js_number"
  Number_toString :: "js_number \<Rightarrow> string"
  Number_toFixed :: "js_number \<Rightarrow> nat \<Rightarrow> string"
  BigInt_RangeError :: "js_number \<Rightarrow> js_thrown"

text \<open>
  \<open>BigInt(x)\<close> of a Number: the integer \<open>x\<close> denotes when \<open>x\<close> is integral, and a
  \<open>RangeError\<close> (whose text is the engine's) for \<open>NaN\<close>, the infinities and
  fractions.
\<close>

fun BigInt :: "env \<Rightarrow> js_number \<Rightarrow> js_thrown + int" where
  "BigInt env (Finite q) =
     (if of_int \<lfloor>q\<rfloor> = q then Inr \<lfloor>q\<rfloor> else Inl (BigInt_RangeError env (Finite q)))"
| "BigInt env x = Inl (BigInt_RangeError env x)"

text \<open>The observable actions of one run, in the order they happen.\<close>

datatype event =
    RpcGetAccount pubkey
  | RpcGetBalance pubkey
  | Built instruction
  | SignAndSend "instruction list" string


section \<open>\<open>TxStatus\<close>: the transaction state\<close>

text \<open>
  \<^verbatim>\<open>
  export type TransactionState = {
    status: "idle" | "pending" | "success" | "error";
    signature?: string;
    error?: string;
  };
  \<close>
\<close>

datatype tx_status = Idle | Pending | Success | Error

record TransactionState =
  status :: tx_status
  signature :: "string option"
  error :: "string option"

definition tx_idle :: TransactionState where
  "tx_idle = \<lparr>status = Idle, signature = None, error = None\<rparr>"

definition tx_pending :: TransactionState where
  "tx_pending = \<lparr>status = Pending, signature = None, error = None\<rparr>"

definition tx_success :: "string \<Rightarrow> TransactionState" where
  "tx_success sig = \<lparr>status = Success, signature = Some sig, error = None\<rparr>"

definition tx_error :: "string \<Rightarrow> TransactionState" where
  "tx_error msg = \<lparr>status = Error, signature = None, error = Some msg\<rparr>"

text \<open>
  \<open>TxStatus\<close> renders the dismiss button in the success panel (shown for a non-empty
  signature) and in the error panel, and nothing while idle or pending.
\<close>

definition dismiss_shown :: "TransactionState \<Rightarrow> bool" where
  "dismiss_shown ts =
     (if status ts = Idle then False
      else if status ts = Pending then False
      else if status ts = Success \<and> signature ts \<noteq> None \<and> signature ts \<noteq> Some [] then True
      else if status ts = Error then True
      else False)"


section \<open>\<open>SendUSDC\<close>: the transfer form\<close>

definition USDC_DECIMALS :: nat where
  "USDC_DECIMALS = 6"

text \<open>\<open>Math.pow(10, USDC_DECIMALS)\<close>, the double \<open>1000000\<close>.\<close>

definition pow10_USDC_DECIMALS :: js_number where
  "pow10_USDC_DECIMALS = Finite (10 ^ USDC_DECIMALS)"

text \<open>The component's local state: the two input fields and the transaction state.\<close>

record form =
  recipient :: string
  amount :: string
  txState :: TransactionState

definition isValidAddress :: "env \<Rightarrow> string \<Rightarrow> bool" where
  "isValidAddress env address =
     (let trimmed = trim address
      in if trimmed = [] then False
         else (case PublicKey_new env trimmed of Inl _ \<Rightarrow> False | Inr _ \<Rightarrow> True))"

text \<open>
  Lines 58 to 84 of \<open>handleSubmit\<close>: the synchronous checks, in the order of the source.
  \<open>Inl\<close> carries the text of the error state set before returning; \<open>Inr\<close> carries
  the signer, the trimmed recipient and the parsed amount.
\<close>

definition validate :: "env \<Rightarrow> form \<Rightarrow> string + (pubkey \<times> string \<times> js_number)" where
  "validate env st =
     (let trimmedRecipient = trim (recipient st);
          trimmedAmount = trim (amount st)
      in case smartWalletPubkey env of
           None \<Rightarrow> Inl ''Wallet not connected''
         | Some wallet \<Rightarrow>
             if \<not> isValidAddress env trimmedRecipient then Inl ''Invalid recipient address''
             else if trimmedAmount = [] then Inl ''Please enter an amount''
             else
               (let amountNum = parseFloat trimmedAmount
                in if isNaN amountNum \<or> num_le amountNum (Finite 0)
                   then Inl ''Amount must be greater than 0''
                   else Inr (wallet, trimmedRecipient, amountNum)))"

text \<open>Lines 91 to 93: \<open>BigInt(Math.round(amountNum * Math.pow(10, USDC_DECIMALS)))\<close>.\<close>

definition transferAmount_of :: "env \<Rightarrow> js_number \<Rightarrow> js_thrown + int" where
  "transferAmount_of env amountNum =
     BigInt env (Math_round (num_mul amountNum pow10_USDC_DECIMALS))"

text \<open>
  Lines 115 to 133: the sender's balance check. \<open>Some\<close> is the error state set before
  returning, \<open>None\<close> lets the flow continue.
\<close>

definition check_sender_balance :: "env \<Rightarrow> pubkey \<Rightarrow> int \<Rightarrow> TransactionState option" where
  "check_sender_balance env senderATA transferAmount =
     (case getAccount env 0 senderATA of
        Inl _ \<Rightarrow>
          Some (tx_error ''No USDC balance found. Please fund your wallet with USDC first.'')
      | Inr senderAmount \<Rightarrow>
          if senderAmount < transferAmount then
            Some (tx_error
              (''Insufficient USDC balance. You have ''
               @ Number_toString env (num_div (Number_of_bigint senderAmount) pow10_USDC_DECIMALS)
               @ '' USDC''))
          else None)"

definition rentExempt :: js_number where
  "rentExempt = Finite 2039280"

text \<open>
  Lines 135 to 182: the recipient's token account is looked up; when the lookup fails
  the signer's SOL balance is compared with \<open>rentExempt\<close> and the account-creation
  instruction is pushed first; the transfer instruction is pushed last. The result is
  a thrown value, the error state set before returning, or the instruction array.
\<close>

definition build_instructions ::
  "env \<Rightarrow> pubkey \<Rightarrow> pubkey \<Rightarrow> pubkey \<Rightarrow> pubkey \<Rightarrow> pubkey \<Rightarrow> int
     \<Rightarrow> (js_thrown + (TransactionState + instruction list)) \<times> event list" where
  "build_instructions env wallet usdcMint recipientPubkey senderATA recipientATA transferAmount =
     (let needsAtaCreation =
            (case getAccount env 1 recipientATA of Inl _ \<Rightarrow> True | Inr _ \<Rightarrow> False);
          create = CreateAssociatedTokenAccount wallet recipientATA recipientPubkey usdcMint
                     TOKEN_PROGRAM_ID ASSOCIATED_TOKEN_PROGRAM_ID;
          transfer = Transfer senderATA recipientATA wallet transferAmount [] TOKEN_PROGRAM_ID
      in if needsAtaCreation then
           (case getBalance env wallet of
              Inl e \<Rightarrow> (Inl e, [RpcGetAccount recipientATA, RpcGetBalance wallet])
            | Inr solBalance \<Rightarrow>
                if num_less solBalance rentExempt then
                  (Inr (Inl (tx_error
                     (''Need ~0.002 SOL to create recipient's token account. You have ''
                      @ Number_toFixed env (num_div solBalance (Finite 1000000000)) 4
                      @ '' SOL. Get more SOL from faucet.solana.com''))),
                   [RpcGetAccount recipientATA, RpcGetBalance wallet])
                else
                  (Inr (Inr [create, transfer]),
                   [RpcGetAccount recipientATA, RpcGetBalance wallet, Built create, Built transfer]))
         else (Inr (Inr [transfer]), [RpcGetAccount recipientATA, Built transfer]))"

text \<open>
  Lines 91 to 113: the amount in base units, the mint and recipient keys and the two
  token-account addresses (\<open>new Connection\<close> opens no connection by itself).
\<close>

definition prepare ::
  "env \<Rightarrow> pubkey \<Rightarrow> string \<Rightarrow> js_number
     \<Rightarrow> js_thrown + (int \<times> pubkey \<times> pubkey \<times> pubkey \<times> pubkey)" where
  "prepare env wallet trimmedRecipient amountNum =
     (case transferAmount_of env amountNum of
        Inl e \<Rightarrow> Inl e
      | Inr transferAmount \<Rightarrow>
     (case PublicKey_new env USDC_MINT_DEVNET of
        Inl e \<Rightarrow> Inl e
      | Inr usdcMint \<Rightarrow>
     (case PublicKey_new env trimmedRecipient of
        Inl e \<Rightarrow> Inl e
      | Inr recipientPubkey \<Rightarrow>
     (case getAssociatedTokenAddress env usdcMint wallet True of
        Inl e \<Rightarrow> Inl e
      | Inr senderATA \<Rightarrow>
     (case getAssociatedTokenAddress env usdcMint recipientPubkey True of
        Inl e \<Rightarrow> Inl e
      | Inr recipientATA \<Rightarrow>
          Inr (transferAmount, usdcMint, recipientPubkey, senderATA, recipientATA))))))"

text \<open>
  Lines 89 to 197, the body of the \<open>try\<close> block. It ends by throwing to the handler
  (\<open>Inl\<close>), by an early \<open>return\<close> after setting an error state, or with the
  signature \<open>signAndSendTransaction\<close> resolved to.
\<close>

datatype outcome = Returned TransactionState | Sent string

definition try_body ::
  "env \<Rightarrow> pubkey \<Rightarrow> string \<Rightarrow> js_number \<Rightarrow> (js_thrown + outcome) \<times> event list" where
  "try_body env wallet trimmedRecipient amountNum =
     (case prepare env wallet trimmedRecipient amountNum of
        Inl e \<Rightarrow> (Inl e, [])
      | Inr (transferAmount, usdcMint, recipientPubkey, senderATA, recipientATA) \<Rightarrow>
     (case check_sender_balance env senderATA transferAmount of
        Some ts \<Rightarrow> (Inr (Returned ts), [RpcGetAccount senderATA])
      | None \<Rightarrow>
     (case build_instructions env wallet usdcMint recipientPubkey senderATA recipientATA
             transferAmount of
        (Inl e, evs) \<Rightarrow> (Inl e, RpcGetAccount senderATA # evs)
      | (Inr (Inl ts), evs) \<Rightarrow> (Inr (Returned ts), RpcGetAccount senderATA # evs)
      | (Inr (Inr instructions), evs) \<Rightarrow>
          (case signAndSendTransaction env instructions ''USDC'' of
             Inl e \<Rightarrow> (Inl e, RpcGetAccount senderATA # evs @ [SignAndSend instructions ''USDC''])
           | Inr sig \<Rightarrow>
               (Inr (Sent sig),
                RpcGetAccount senderATA # evs @ [SignAndSend instructions ''USDC''])))))"

text \<open>
  Lines 204 to 223, the handler's choice of the displayed text (the development-only
  \<open>console.error\<close> is left out).
\<close>

definition error_message :: "js_thrown \<Rightarrow> string" where
  "error_message e =
     (case e of
        NonError \<Rightarrow> ''Transfer failed. Please try again.''
      | JsError name message \<Rightarrow>
          if str_includes message ''insufficient lamports'' \<or> str_includes message ''lamports''
          then ''Need more SOL to create recipient's token account. Get SOL from faucet.solana.com''
          else if str_includes message ''insufficient'' \<or> str_includes message ''Insufficient''
          then ''Insufficient funds for this transaction.''
          else if str_includes message ''rejected'' \<or> str_includes message ''Rejected''
          then ''Transaction was rejected.''
          else if str_includes message ''timeout'' \<or> str_includes message ''timed out''
          then ''Transaction timed out. Please try again.''
          else if str_includes message ''network'' \<or> str_includes message ''Network''
          then ''Network error. Please check your connection.''
          else if str_includes message ''TokenOwnerOffCurve'' \<or> name = ''TokenOwnerOffCurveError''
          then ''Token account error. Please try again.''
          else if str_includes message ''not allowed'' \<or> str_includes message ''cancelled''
          then ''Operation was cancelled. Please try again.''
          else ''Transfer failed. Please try again.'')"

text \<open>
  The three ways the asynchronous part writes its result into the form: an early
  \<open>return\<close> with the error state it set, the success state with both fields
  cleared (lines 193 to 197), and the handler's error state (line 225).
\<close>

definition finish :: "js_thrown + outcome \<Rightarrow> form \<Rightarrow> form" where
  "finish res st =
     (case res of
        Inr (Returned ts) \<Rightarrow> st\<lparr>txState := ts\<rparr>
      | Inr (Sent sig) \<Rightarrow> st\<lparr>txState := tx_success sig, recipient := [], amount := []\<rparr>
      | Inl e \<Rightarrow> st\<lparr>txState := tx_error (error_message e)\<rparr>)"

text \<open>
  \<open>handleSubmit\<close>, run to completion: the final state of the form and the actions
  performed. The state is set to pending at line 87, before the \<open>try\<close> block.
\<close>

definition handleSubmit :: "env \<Rightarrow> form \<Rightarrow> form \<times> event list" where
  "handleSubmit env st =
     (case validate env st of
        Inl msg \<Rightarrow> (st\<lparr>txState := tx_error msg\<rparr>, [])
      | Inr (wallet, trimmedRecipient, amountNum) \<Rightarrow>
          (case try_body env wallet trimmedRecipient amountNum of
             (res, evs) \<Rightarrow> (finish res (st\<lparr>txState := tx_pending\<rparr>), evs)))"

definition handleDismiss :: "form \<Rightarrow> form" where
  "handleDismiss st = st\<lparr>txState := tx_idle\<rparr>"

text \<open>Lines 323 to 328, the \<open>disabled\<close> attribute of the submit button.\<close>

definition submit_disabled :: "env \<Rightarrow> form \<Rightarrow> bool" where
  "submit_disabled env st =
     (status (txState st) = Pending
      \<or> trim (recipient st) = []
      \<or> trim (amount st) = []
      \<or> \<not> isValidAddress env (trim (recipient st)))"


text \<open>
  The form between events. A submit event reaches \<open>handleSubmit\<close> only through the
  submit button, so only while it is enabled; the synchronous checks then either set an
  error state or set the state to pending and leave the asynchronous part in flight,
  which later writes its result with \<open>finish\<close>. Meanwhile the user may edit the fields,
  and may dismiss a result where \<open>TxStatus\<close> shows the button.

  The page renders \<open>SendUSDC\<close> only while the wallet is connected (\<open>page.tsx\<close>, lines
  111 to 125), and the disconnect button is never disabled: a disconnect unmounts the
  form, and the next connect mounts a fresh one in its initial state. A submission that
  was awaiting keeps running; when it settles, its state updates go to the unmounted
  instance and change nothing on the page.

  \<open>own_in_flight\<close> counts the submissions of the mounted form that have started and
  not yet settled, \<open>orphaned\<close> those of forms unmounted since; one settles with a
  result of \<open>try_body\<close>, in the environment it ran in.
\<close>

record ui =
  ui_form :: form
  own_in_flight :: nat
  orphaned :: nat

definition in_flight :: "ui \<Rightarrow> nat" where
  "in_flight u = own_in_flight u + orphaned u"

definition ui_init :: ui where
  "ui_init =
     \<lparr>ui_form = \<lparr>recipient = [], amount = [], txState = tx_idle\<rparr>,
      own_in_flight = 0, orphaned = 0\<rparr>"

inductive step :: "ui \<Rightarrow> ui \<Rightarrow> bool" where
  edit_recipient:
    "step u (u\<lparr>ui_form := (ui_form u)\<lparr>recipient := v\<rparr>\<rparr>)"
| edit_amount:
    "step u (u\<lparr>ui_form := (ui_form u)\<lparr>amount := v\<rparr>\<rparr>)"
| submit_rejected:
    "\<not> submit_disabled env (ui_form u) \<Longrightarrow> validate env (ui_form u) = Inl msg
     \<Longrightarrow> step u (u\<lparr>ui_form := (ui_form u)\<lparr>txState := tx_error msg\<rparr>\<rparr>)"
| submit_started:
    "\<not> submit_disabled env (ui_form u) \<Longrightarrow> validate env (ui_form u) = Inr v
     \<Longrightarrow> step u (u\<lparr>ui_form := (ui_form u)\<lparr>txState := tx_pending\<rparr>,
                   own_in_flight := own_in_flight u + 1\<rparr>)"
| settle:
    "0 < own_in_flight u \<Longrightarrow> try_body env w r a = (res, evs)
     \<Longrightarrow> step u (u\<lparr>ui_form := finish res (ui_form u),
                   own_in_flight := own_in_flight u - 1\<rparr>)"
| settle_orphaned:
    "0 < orphaned u \<Longrightarrow> step u (u\<lparr>orphaned := orphaned u - 1\<rparr>)"
| dismiss:
    "dismiss_shown (txState (ui_form u))
     \<Longrightarrow> step u (u\<lparr>ui_form := handleDismiss (ui_form u)\<rparr>)"
| remount:
    "step u \<lparr>ui_form = ui_form ui_init, own_in_flight = 0,
             orphaned = orphaned u + own_in_flight u\<rparr>"

inductive reachable :: "ui \<Rightarrow> bool" where
  reachable_init: "reachable ui_init"
| reachable_step: "reachable u \<Longrightarrow> step u u' \<Longrightarrow> reachable u'"


section \<open>\<open>WalletInfo\<close>: the balance refresh\<close>

text \<open>
  \<^verbatim>\<open>
  interface Balances { sol: number | null; usdc: number | null; loading: boolean; }
  \<close>
\<close>

record Balances =
  sol :: "js_number option"
  usdc :: "js_number option"
  loading :: bool

definition LAMPORTS_PER_SOL :: js_number where
  "LAMPORTS_PER_SOL = Finite 1000000000"

text \<open>
  Lines 50 to 59 of \<open>fetchBalances\<close>: the inner \<open>try\<close>, whose handler turns every
  failure into a balance of 0.
\<close>

definition fetch_usdc :: "env \<Rightarrow> pubkey \<Rightarrow> js_number \<times> event list" where
  "fetch_usdc env walletPubkey =
     (case PublicKey_new env USDC_MINT_DEVNET of
        Inl _ \<Rightarrow> (Finite 0, [])
      | Inr usdcMint \<Rightarrow>
     (case getAssociatedTokenAddress env usdcMint walletPubkey True of
        Inl _ \<Rightarrow> (Finite 0, [])
      | Inr ata \<Rightarrow>
     (case getAccount env 0 ata of
        Inl _ \<Rightarrow> (Finite 0, [RpcGetAccount ata])
      | Inr tokenAmount \<Rightarrow>
          (num_div (Number_of_bigint tokenAmount) pow10_USDC_DECIMALS, [RpcGetAccount ata]))))"

text \<open>
  Lines 41 to 61, the outer \<open>try\<close> block: \<open>Inl\<close> when it throws to the handler at
  line 62, else the snapshot it stores.
\<close>

definition fetch_body :: "env \<Rightarrow> string \<Rightarrow> (js_thrown + Balances) \<times> event list" where
  "fetch_body env smartWallet =
     (case PublicKey_new env smartWallet of
        Inl e \<Rightarrow> (Inl e, [])
      | Inr walletPubkey \<Rightarrow>
     (case getBalance env walletPubkey of
        Inl e \<Rightarrow> (Inl e, [RpcGetBalance walletPubkey])
      | Inr solBalance \<Rightarrow>
          (case fetch_usdc env walletPubkey of
             (usdcAmount, evs) \<Rightarrow>
               (Inr \<lparr>sol = Some (num_div solBalance LAMPORTS_PER_SOL),
                     usdc = Some usdcAmount, loading = False\<rparr>,
                RpcGetBalance walletPubkey # evs))))"

text \<open>
  \<open>fetchBalances\<close>, run to completion, from the snapshot \<open>prev\<close>. Without a wallet
  address it returns at once; otherwise \<open>loading\<close> is set, and the final
  \<open>setBalances\<close> stores the fetched snapshot or, in the handler, two nulls.
\<close>

definition fetchBalances :: "env \<Rightarrow> Balances \<Rightarrow> Balances \<times> event list" where
  "fetchBalances env prev =
     (case wallet_smartWallet env of
        None \<Rightarrow> (prev, [])
      | Some smartWallet \<Rightarrow>
          if smartWallet = [] then (prev, [])
          else
            (case fetch_body env smartWallet of
               (Inl e, evs) \<Rightarrow> (\<lparr>sol = None, usdc = None, loading = False\<rparr>, evs)
             | (Inr b, evs) \<Rightarrow> (b, evs)))"


section \<open>The error table of the specification\<close>

text \<open>
  The specification describes the handler as a fixed table of categories, matched
  against the error in this order, each with one literal text, and a generic text when
  none matches. This is that table, written from the specification's words; it is
  compared with \<open>error_message\<close> below.
\<close>

datatype category =
    InsufficientFundsForRent
  | InsufficientFundsGeneral
  | UserRejected
  | Timeout
  | Network
  | OffCurveAccount
  | UserCancelled







section \<open>A sample environment\<close>

text \<open>
  A small world to run the components in: two known addresses besides the mint, a
  wallet connected as the first, and the answers of the network and of the wallet given
  as parameters. Number formatting is given for the two values the examples print.
\<close>

definition alice :: pubkey where
  "alice = ''A11ce''"

definition bob :: pubkey where
  "bob = ''B0b''"

definition sample_env ::
  "(js_thrown + int) \<Rightarrow> (js_thrown + int) \<Rightarrow> (js_thrown + js_number) \<Rightarrow> (js_thrown + string)
     \<Rightarrow> env" where
  "sample_env senderAccount recipientAccount solBalance sendResult =
     \<lparr>smartWalletPubkey = Some alice,
      wallet_smartWallet = Some alice,
      signAndSendTransaction = (\<lambda>instructions feeToken. sendResult),
      PublicKey_new =
        (\<lambda>s. if s = alice \<or> s = bob \<or> s = USDC_MINT_DEVNET then Inr s
             else Inl (JsError ''Error'' ''Invalid public key input'')),
      getAssociatedTokenAddress = (\<lambda>mint owner allowOwnerOffCurve. Inr (''ata-'' @ owner)),
      getAccount = (\<lambda>i address. if i = 0 then senderAccount else recipientAccount),
      getBalance = (\<lambda>address. solBalance),
      Number_toString = (\<lambda>x. if x = Finite (1 / 2) then ''0.5'' else ''<number>''),
      Number_toFixed =
        (\<lambda>x digits. if x = Finite 0 \<and> digits = 4 then ''0.0000'' else ''<number>''),
      BigInt_RangeError = (\<lambda>x. JsError ''RangeError'' ''not an integer'')\<rparr>"

definition no_account :: js_thrown where
  "no_account = JsError ''TokenAccountNotFoundError'' []"

definition sample_form :: "string \<Rightarrow> string \<Rightarrow> form" where
  "sample_form r a = \<lparr>recipient = r, amount = a, txState = tx_idle\<rparr>"


section \<open>Theorems about the display helpers\<close>

lemma slice_prefix:
  assumes "0 \<le> n" and "n \<le> int (length s)"
  shows "slice s 0 (Some n) = take (nat n) s"
  using assms by (simp add: slice_def clamp_index_def Let_def)

lemma slice_suffix:
  assumes "0 < n" and "n \<le> int (length s)"
  shows "slice s (- n) None = drop (length s - nat n) s"
proof -
  have "nat (int (length s) - n) = length s - nat n"
    using assms by linarith
  then show ?thesis
    using assms by (simp add: slice_def clamp_index_def Let_def)
qed

text \<open>
  C10. For a positive integer \<open>chars\<close>, \<open>truncateAddress\<close> returns the address unchanged
  when its length is at most \<open>2 * chars + 3\<close>; otherwise it returns the first \<open>chars\<close>
  characters, three dots and the last \<open>chars\<close> characters, a string of length exactly
  \<open>2 * chars + 3\<close>.
\<close>

theorem truncateAddress_spec:
  assumes "0 < chars"
  shows "truncateAddress address chars =
           (if int (length address) \<le> 2 * chars + 3 then address
            else take (nat chars) address @ ''...'' @ drop (length address - nat chars) address)
         \<and> (if int (length address) \<le> 2 * chars + 3 then True
            else int (length (truncateAddress address chars)) = 2 * chars + 3)"
proof (cases "int (length address) \<le> 2 * chars + 3")
  case True
  then show ?thesis by (simp add: truncateAddress_def mult.commute)
next
  case False
  then have long: "chars \<le> int (length address)" using assms by linarith
  have eq: "truncateAddress address chars =
      take (nat chars) address @ ''...'' @ drop (length address - nat chars) address"
    using False assms long
    by (simp add: truncateAddress_def mult.commute slice_prefix slice_suffix)
  have "length (take (nat chars) address) = nat chars" using long assms by simp
  moreover have "length (drop (length address - nat chars) address) = nat chars"
    using long assms by simp
  ultimately have "int (length (truncateAddress address chars)) = 2 * chars + 3"
    using assms by (simp only: eq length_append) simp
  with False eq show ?thesis by simp
qed

theorem truncateAddress_spec_witness:
  "(0::int) < 4
   \<and> truncateAddress ''4zMMC9srt5Ri5X14GAgXhaHii3GnPAEERYPJgZJDncDU'' 4 = ''4zMM...ncDU''
   \<and> truncateAddress ''AbCdEfGhIjK'' 4 = ''AbCdEfGhIjK''"
  using truncateAddress_spec [of 4 "''4zMMC9srt5Ri5X14GAgXhaHii3GnPAEERYPJgZJDncDU''"]
    truncateAddress_spec [of 4 "''AbCdEfGhIjK''"]
  by simp


section \<open>Evaluating numbers and the sample environment\<close>

lemma floor_rat_numeral_div:
  "\<lfloor>numeral a / numeral b :: rat\<rfloor> = numeral a div numeral b"
  using floor_divide_of_int_eq [of "numeral a" "numeral b", where ?'a = rat] by simp

lemma ceiling_rat_numeral_div:
  "\<lceil>numeral a / numeral b :: rat\<rceil> = - ((- numeral a) div numeral b)"
  using ceiling_divide_eq_div [of "numeral a" "numeral b", where ?'a = rat] by simp

lemma bitlen_numeral:
  "bitlen (numeral Num.One) = 1"
  "bitlen (numeral (Num.Bit0 n)) = bitlen (numeral n) + 1"
  "bitlen (numeral (Num.Bit1 n)) = bitlen (numeral n) + 1"
  "bitlen 1 = 1"
  by (subst compute_bitlen, simp)+

lemmas double_eval = round_double_def round_pos_def round_half_even_def floor_log2_def pow2_def
  Let_def floor_rat_numeral_div ceiling_rat_numeral_div bitlen_numeral

lemmas parse_eval = parseFloat_def parse_unsigned_def parse_exponent_def parse_sign_def
  trim_start_def trim_def is_js_space_def is_digit_def digits_value_def pow10_def

lemmas sample_simps = sample_env_def sample_form_def alice_def bob_def USDC_MINT_DEVNET_def

lemma parseFloat_examples:
  "parseFloat ''0.1'' = Finite (3602879701896397 / 36028797018963968)"
  "parseFloat ''1.0000005'' = Finite (2251800939585155 / 2251799813685248)"
  "parseFloat ''1.5'' = Finite (3 / 2)"
  "parseFloat ''  12.5e-1xyz'' = Finite (5 / 4)"
  "parseFloat ''.5'' = Finite (1 / 2)"
  "parseFloat ''5.'' = Finite 5"
  "parseFloat ''1e'' = Finite 1"
  "parseFloat ''-2'' = Finite (- 2)"
  "parseFloat ''0'' = Finite 0"
  "parseFloat ''1e-400'' = Finite 0"
  by (simp_all add: parse_eval double_eval)

lemma parseFloat_not_numbers:
  "parseFloat ''Infinity'' = PosInf"
  "parseFloat ''abc'' = NaN"
  "parseFloat ''.'' = NaN"
  "parseFloat ''+-3'' = NaN"
  by (simp_all add: parse_eval)

lemma sample_validate:
  "validate (sample_env sa ra sb sr) (sample_form ''B0b'' ''1.5'') =
     Inr (alice, ''B0b'', Finite (3 / 2))"
  by (simp add: validate_def isValidAddress_def sample_simps parseFloat_examples trim_def
      is_js_space_def)

lemma sample_transferAmount:
  "transferAmount_of env (Finite (3 / 2)) = Inr 1500000"
  by (simp add: transferAmount_of_def pow10_USDC_DECIMALS_def USDC_DECIMALS_def double_eval)

lemma sample_prepare:
  "prepare (sample_env sa ra sb sr) alice ''B0b'' (Finite (3 / 2)) =
     Inr (1500000, USDC_MINT_DEVNET, bob, ''ata-A11ce'', ''ata-B0b'')"
  by (simp add: prepare_def sample_transferAmount) (simp add: sample_simps)



lemma trim_samples:
  "trim ''B0b'' = ''B0b''" "trim ''nowhere'' = ''nowhere''" "trim ''1.5'' = ''1.5''"
  "trim ''   '' = []" "trim ''Infinity'' = ''Infinity''" "trim ''abc'' = ''abc''"
  by (simp_all add: trim_def is_js_space_def)

lemma sample_addresses:
  "isValidAddress (sample_env sa ra sb sr) ''B0b''"
  "\<not> isValidAddress (sample_env sa ra sb sr) ''nowhere''"
  by (simp_all add: isValidAddress_def trim_samples) (simp_all add: sample_simps)

lemma sample_validate_amounts:
  "validate (sample_env sa ra sb sr) (sample_form ''B0b'' ''0.1'') =
     Inr (alice, ''B0b'', Finite (3602879701896397 / 36028797018963968))"
  "validate (sample_env sa ra sb sr) (sample_form ''B0b'' '' 1.0000005 '') =
     Inr (alice, ''B0b'', Finite (2251800939585155 / 2251799813685248))"
  by (simp_all add: validate_def isValidAddress_def sample_simps parseFloat_examples trim_def
      is_js_space_def)

lemma parseFloat_1e303:
  "parseFloat ''1e303'' = Finite 1000000000000000000161765076786456438212668646231659438295495017101117499225738747865260243034213915253779773568180337416027445820567779199643391541606026068611150746122284976177256650044200527276807327067690462112661427500197051226489898260678763391449376088547292320814127957486330655468919122263277568"
  by (simp add: parse_eval double_eval)

lemma overflow_1e303:
  "num_mul (Finite 1000000000000000000161765076786456438212668646231659438295495017101117499225738747865260243034213915253779773568180337416027445820567779199643391541606026068611150746122284976177256650044200527276807327067690462112661427500197051226489898260678763391449376088547292320814127957486330655468919122263277568) pow10_USDC_DECIMALS = PosInf"
  by (simp add: pow10_USDC_DECIMALS_def USDC_DECIMALS_def double_eval)

lemma sample_run_existing:
  "handleSubmit (sample_env (Inr 2000000) (Inr 0) sb (Inr ''sig'')) (sample_form ''B0b'' ''1.5'') =
     (\<lparr>recipient = [], amount = [], txState = tx_success ''sig''\<rparr>,
      [RpcGetAccount ''ata-A11ce'', RpcGetAccount ''ata-B0b'',
       Built (Transfer ''ata-A11ce'' ''ata-B0b'' alice 1500000 [] TOKEN_PROGRAM_ID),
       SignAndSend [Transfer ''ata-A11ce'' ''ata-B0b'' alice 1500000 [] TOKEN_PROGRAM_ID] ''USDC''])"
  by (simp add: handleSubmit_def sample_validate try_body_def sample_prepare)
     (simp add: finish_def check_sender_balance_def build_instructions_def Let_def sample_env_def
        sample_form_def)

lemma sample_run_created:
  "handleSubmit (sample_env (Inr 2000000) (Inl no_account) (Inr (Finite 5000000)) (Inr ''sig''))
       (sample_form ''B0b'' ''1.5'') =
     (\<lparr>recipient = [], amount = [], txState = tx_success ''sig''\<rparr>,
      [RpcGetAccount ''ata-A11ce'', RpcGetAccount ''ata-B0b'', RpcGetBalance alice,
       Built (CreateAssociatedTokenAccount alice ''ata-B0b'' bob USDC_MINT_DEVNET TOKEN_PROGRAM_ID
                ASSOCIATED_TOKEN_PROGRAM_ID),
       Built (Transfer ''ata-A11ce'' ''ata-B0b'' alice 1500000 [] TOKEN_PROGRAM_ID),
       SignAndSend
         [CreateAssociatedTokenAccount alice ''ata-B0b'' bob USDC_MINT_DEVNET TOKEN_PROGRAM_ID
            ASSOCIATED_TOKEN_PROGRAM_ID,
          Transfer ''ata-A11ce'' ''ata-B0b'' alice 1500000 [] TOKEN_PROGRAM_ID] ''USDC''])"
  by (simp add: handleSubmit_def sample_validate try_body_def sample_prepare)
     (simp add: finish_def check_sender_balance_def build_instructions_def Let_def sample_env_def
        sample_form_def rentExempt_def)

lemma sample_run_rejected:
  "handleSubmit
       (sample_env (Inr 2000000) (Inr 0) sb (Inl (JsError ''Error'' ''User rejected the request'')))
       (sample_form ''B0b'' ''1.5'') =
     ((sample_form ''B0b'' ''1.5'')\<lparr>txState := tx_error ''Transaction was rejected.''\<rparr>,
      [RpcGetAccount ''ata-A11ce'', RpcGetAccount ''ata-B0b'',
       Built (Transfer ''ata-A11ce'' ''ata-B0b'' alice 1500000 [] TOKEN_PROGRAM_ID),
       SignAndSend [Transfer ''ata-A11ce'' ''ata-B0b'' alice 1500000 [] TOKEN_PROGRAM_ID] ''USDC''])"
  by (simp add: handleSubmit_def sample_validate try_body_def sample_prepare)
     (simp add: finish_def check_sender_balance_def build_instructions_def Let_def sample_env_def
        sample_form_def error_message_def)



section \<open>Theorems about the transfer form\<close>

subsection \<open>Input validation\<close>

lemma validate_InrD:
  assumes "validate env st = Inr (w, r, a)"
  shows "smartWalletPubkey env = Some w" and "r = trim (recipient st)"
    and "a = parseFloat (trim (amount st))" and "isValidAddress env (trim (recipient st))"
    and "trim (amount st) \<noteq> []" and "\<not> isNaN a" and "\<not> num_le a (Finite 0)"
  using assms
  by (auto simp: validate_def Let_def split: option.splits if_splits)

lemma accepted_number:
  assumes "\<not> isNaN a" and "\<not> num_le a (Finite 0)"
  shows "a = PosInf \<or> (\<exists>q. a = Finite q \<and> 0 < q)"
  using assms by (cases a) auto

lemma handleSubmit_invalid:
  "validate env st = Inl msg \<Longrightarrow> handleSubmit env st = (st\<lparr>txState := tx_error msg\<rparr>, [])"
  by (simp add: handleSubmit_def)

lemma transferAmount_of_PosInf:
  "transferAmount_of env PosInf = Inl (BigInt_RangeError env PosInf)"
  by (simp add: transferAmount_of_def pow10_USDC_DECIMALS_def)

lemma handleSubmit_PosInf:
  assumes "validate env st = Inr (w, r, PosInf)"
  shows "handleSubmit env st =
           (st\<lparr>txState := tx_error (error_message (BigInt_RangeError env PosInf))\<rparr>, [])"
  using assms
  by (simp add: handleSubmit_def try_body_def prepare_def transferAmount_of_PosInf finish_def)

text \<open>
  C2. The checks run in the order signer, recipient address, amount, and each failure
  ends the submission in an error state with no network query and no instruction
  built (the list of actions is empty): without a signer the text is the one of the
  first check whatever the fields hold; with a signer and a recipient that is not a
  valid address it is the one of the second check whatever the amount holds; with both
  in order, an empty amount gets the text of the third check, and every amount that
  is empty or does not parse to a finite number above 0 ends in an error state. (An
  amount parsing to \<open>Infinity\<close> passes the guard at line 81 and is stopped by the
  \<open>RangeError\<close> of \<open>BigInt\<close>, the first statement of the \<open>try\<close> block.)
\<close>

theorem handleSubmit_rejects_invalid_input:
  "(smartWalletPubkey env = None \<longrightarrow>
      handleSubmit env st = (st\<lparr>txState := tx_error ''Wallet not connected''\<rparr>, []))
   \<and> (smartWalletPubkey env \<noteq> None \<and> \<not> isValidAddress env (trim (recipient st)) \<longrightarrow>
      handleSubmit env st = (st\<lparr>txState := tx_error ''Invalid recipient address''\<rparr>, []))
   \<and> (smartWalletPubkey env \<noteq> None \<and> isValidAddress env (trim (recipient st))
        \<and> trim (amount st) = [] \<longrightarrow>
      handleSubmit env st = (st\<lparr>txState := tx_error ''Please enter an amount''\<rparr>, []))
   \<and> (smartWalletPubkey env \<noteq> None \<and> isValidAddress env (trim (recipient st))
        \<and> \<not> (trim (amount st) \<noteq> []
              \<and> (case parseFloat (trim (amount st)) of Finite q \<Rightarrow> 0 < q | _ \<Rightarrow> False)) \<longrightarrow>
      status (txState (fst (handleSubmit env st))) = Error \<and> snd (handleSubmit env st) = [])"
proof -
  have c1: "handleSubmit env st = (st\<lparr>txState := tx_error ''Wallet not connected''\<rparr>, [])"
    if "smartWalletPubkey env = None"
  proof -
    from that have "validate env st = Inl ''Wallet not connected''"
      by (simp add: validate_def)
    then show ?thesis by (rule handleSubmit_invalid)
  qed
  have c2: "handleSubmit env st = (st\<lparr>txState := tx_error ''Invalid recipient address''\<rparr>, [])"
    if "smartWalletPubkey env \<noteq> None \<and> \<not> isValidAddress env (trim (recipient st))"
  proof -
    from that have "validate env st = Inl ''Invalid recipient address''"
      by (auto simp: validate_def)
    then show ?thesis by (rule handleSubmit_invalid)
  qed
  have c3: "handleSubmit env st = (st\<lparr>txState := tx_error ''Please enter an amount''\<rparr>, [])"
    if "smartWalletPubkey env \<noteq> None \<and> isValidAddress env (trim (recipient st))
        \<and> trim (amount st) = []"
  proof -
    from that have "validate env st = Inl ''Please enter an amount''"
      by (auto simp: validate_def)
    then show ?thesis by (rule handleSubmit_invalid)
  qed
  have c4: "status (txState (fst (handleSubmit env st))) = Error \<and> snd (handleSubmit env st) = []"
    if a: "smartWalletPubkey env \<noteq> None \<and> isValidAddress env (trim (recipient st))
        \<and> \<not> (trim (amount st) \<noteq> []
              \<and> (case parseFloat (trim (amount st)) of Finite q \<Rightarrow> 0 < q | _ \<Rightarrow> False))"
  proof (cases "validate env st")
    case (Inl msg)
    then show ?thesis by (simp add: handleSubmit_invalid tx_error_def)
  next
    case (Inr v)
    obtain w r x where v: "v = (w, r, x)" by (cases v)
    note ok = validate_InrD [OF Inr [unfolded v]]
    from accepted_number [OF ok(6) ok(7)] a ok(3) ok(5) have "x = PosInf"
      by auto
    with Inr v show ?thesis by (simp add: handleSubmit_PosInf tx_error_def)
  qed
  from c1 c2 c3 c4 show ?thesis by blast
qed

theorem handleSubmit_rejects_invalid_input_witness:
  "handleSubmit ((sample_env (Inr 2000000) (Inr 0) (Inr (Finite 0)) (Inr ''sig''))
        \<lparr>smartWalletPubkey := None\<rparr>) (sample_form ''nowhere'' ''abc'') =
     ((sample_form ''nowhere'' ''abc'')\<lparr>txState := tx_error ''Wallet not connected''\<rparr>, [])
   \<and> handleSubmit (sample_env (Inr 2000000) (Inr 0) (Inr (Finite 0)) (Inr ''sig''))
        (sample_form ''nowhere'' ''abc'') =
     ((sample_form ''nowhere'' ''abc'')\<lparr>txState := tx_error ''Invalid recipient address''\<rparr>, [])
   \<and> handleSubmit (sample_env (Inr 2000000) (Inr 0) (Inr (Finite 0)) (Inr ''sig''))
        (sample_form ''B0b'' ''   '') =
     ((sample_form ''B0b'' ''   '')\<lparr>txState := tx_error ''Please enter an amount''\<rparr>, [])
   \<and> status (txState (fst (handleSubmit
        (sample_env (Inr 2000000) (Inr 0) (Inr (Finite 0)) (Inr ''sig''))
        (sample_form ''B0b'' ''abc'')))) = Error
   \<and> snd (handleSubmit (sample_env (Inr 2000000) (Inr 0) (Inr (Finite 0)) (Inr ''sig''))
        (sample_form ''B0b'' ''abc'')) = []
   \<and> status (txState (fst (handleSubmit
        (sample_env (Inr 2000000) (Inr 0) (Inr (Finite 0)) (Inr ''sig''))
        (sample_form ''B0b'' ''Infinity'')))) = Error
   \<and> snd (handleSubmit (sample_env (Inr 2000000) (Inr 0) (Inr (Finite 0)) (Inr ''sig''))
        (sample_form ''B0b'' ''Infinity'')) = []"
proof -
  let ?e = "sample_env (Inr 2000000) (Inr 0) (Inr (Finite 0)) (Inr ''sig'')"
  have s: "smartWalletPubkey ?e \<noteq> None" "smartWalletPubkey (?e\<lparr>smartWalletPubkey := None\<rparr>) = None"
    by (simp_all add: sample_env_def)
  have f: "recipient (sample_form r a) = r" "amount (sample_form r a) = a" for r a
    by (simp_all add: sample_form_def)
  show ?thesis
    using handleSubmit_rejects_invalid_input
        [of "?e\<lparr>smartWalletPubkey := None\<rparr>" "sample_form ''nowhere'' ''abc''"]
      handleSubmit_rejects_invalid_input [of ?e "sample_form ''nowhere'' ''abc''"]
      handleSubmit_rejects_invalid_input [of ?e "sample_form ''B0b'' ''   ''"]
      handleSubmit_rejects_invalid_input [of ?e "sample_form ''B0b'' ''abc''"]
      handleSubmit_rejects_invalid_input [of ?e "sample_form ''B0b'' ''Infinity''"]
    by (simp add: s f trim_samples sample_addresses parseFloat_not_numbers)
qed

subsection \<open>The amount in base units\<close>

lemma pow2_pos: "0 < pow2 e"
  by (simp add: pow2_def)

lemma round_half_even_nonneg:
  assumes "0 \<le> x"
  shows "0 \<le> round_half_even x"
proof -
  have "0 \<le> \<lfloor>x\<rfloor>" using assms by simp
  then show ?thesis by (simp add: round_half_even_def Let_def)
qed

lemma round_pos_nonneg:
  assumes "0 < q" and "round_pos q = Some r"
  shows "0 \<le> r"
proof -
  define ex where "ex = max (floor_log2 q - 52) (- 1074)"
  have "0 \<le> q / pow2 ex" using assms(1) pow2_pos [of ex] by simp
  then have "0 \<le> round_half_even (q / pow2 ex)" by (rule round_half_even_nonneg)
  then have "0 \<le> rat_of_int (round_half_even (q / pow2 ex)) * pow2 ex"
    using pow2_pos [of ex] by simp
  with assms(2) show ?thesis
    by (auto simp: round_pos_def Let_def ex_def split: if_splits)
qed

lemma round_double_pos:
  assumes "0 < q"
  shows "round_double q = PosInf \<or> (\<exists>r. round_double q = Finite r \<and> 0 \<le> r)"
proof (cases "round_pos q")
  case None
  with assms show ?thesis by (simp add: round_double_def)
next
  case (Some r)
  with assms round_pos_nonneg [OF assms Some] show ?thesis by (simp add: round_double_def)
qed

text \<open>
  The rounding is the one of IEEE 754: \<open>floor_log2\<close> is the binary exponent, the
  result is a multiple of the quantum with a significand of at most 53 bits, and it
  lies within half a quantum of the exact value.
\<close>

lemma pow2_nonneg_exp: "0 \<le> e \<Longrightarrow> pow2 e = 2 ^ nat e"
  by (simp add: pow2_def)

lemma pow2_neg_exp: "e \<le> 0 \<Longrightarrow> pow2 e = 1 / 2 ^ nat (- e)"
  by (cases "e = 0") (simp_all add: pow2_def)

lemma floor_log2_bounds:
  assumes "0 < q"
  shows "pow2 (floor_log2 q) \<le> q \<and> q < pow2 (floor_log2 q + 1)"
proof (cases "1 \<le> q")
  case True
  define n where "n = \<lfloor>q\<rfloor>"
  have n1: "1 \<le> n" using True by (simp add: n_def le_floor_iff)
  then have pos: "0 < n" by simp
  have b1: "1 \<le> bitlen n"
    using bitlen_nonneg [of n] bitlen_eq_zero_iff [of n] pos by linarith
  from bitlen_bounds [OF pos] have lo: "2 ^ nat (bitlen n - 1) \<le> n" and hi: "n < 2 ^ nat (bitlen n)"
    by simp_all
  have fl: "floor_log2 q = bitlen n - 1" using True by (simp add: floor_log2_def n_def)
  have "(2::rat) ^ nat (bitlen n - 1) \<le> rat_of_int n"
    using of_int_le_iff [where ?'a = rat, THEN iffD2, OF lo] by simp
  also have "\<dots> \<le> q" unfolding n_def by linarith
  finally have l: "pow2 (floor_log2 q) \<le> q" using b1 by (simp add: fl pow2_nonneg_exp)
  have "n + 1 \<le> 2 ^ nat (bitlen n)" using hi by simp
  then have "rat_of_int (n + 1) \<le> rat_of_int (2 ^ nat (bitlen n))" by (simp only: of_int_le_iff)
  moreover have "q < rat_of_int (n + 1)" unfolding n_def by linarith
  ultimately have "q < 2 ^ nat (bitlen n)" by simp
  then have "q < pow2 (floor_log2 q + 1)" using b1 by (simp add: fl pow2_nonneg_exp)
  with l show ?thesis by simp
next
  case False
  then have q1: "q < 1" by simp
  define p where "p = 1 / q"
  have p1: "1 < p" using assms q1 by (simp add: p_def)
  define m where "m = \<lceil>p\<rceil> - 1"
  have "2 \<le> \<lceil>p\<rceil>" using p1 by (simp add: le_ceiling_iff)
  then have pos: "0 < m" by (simp add: m_def)
  have b1: "1 \<le> bitlen m"
    using bitlen_nonneg [of m] bitlen_eq_zero_iff [of m] pos by linarith
  from bitlen_bounds [OF pos] have lo: "2 ^ nat (bitlen m - 1) \<le> m" and hi: "m < 2 ^ nat (bitlen m)"
    by simp_all
  have fl: "floor_log2 q = - bitlen m" using False by (simp add: floor_log2_def m_def p_def)
  have "m + 1 \<le> 2 ^ nat (bitlen m)" using hi by simp
  then have "rat_of_int (m + 1) \<le> rat_of_int (2 ^ nat (bitlen m))" by (simp only: of_int_le_iff)
  moreover have "p \<le> rat_of_int (m + 1)" unfolding m_def by linarith
  ultimately have "p \<le> 2 ^ nat (bitlen m)" by simp
  then have "1 / 2 ^ nat (bitlen m) \<le> q"
    using assms by (simp add: p_def field_simps)
  then have l: "pow2 (floor_log2 q) \<le> q" using b1 by (simp add: fl pow2_neg_exp)
  have "(2::rat) ^ nat (bitlen m - 1) \<le> rat_of_int m"
    using of_int_le_iff [where ?'a = rat, THEN iffD2, OF lo] by simp
  moreover have "rat_of_int m < p" unfolding m_def by linarith
  ultimately have "2 ^ nat (bitlen m - 1) < p" by linarith
  then have "q < 1 / 2 ^ nat (bitlen m - 1)"
    using assms by (simp add: p_def field_simps)
  moreover have "pow2 (- bitlen m + 1) = 1 / 2 ^ nat (bitlen m - 1)"
    using b1 pow2_neg_exp [of "- bitlen m + 1"] by simp
  ultimately have "q < pow2 (floor_log2 q + 1)" by (simp add: fl)
  with l show ?thesis by simp
qed

lemma round_half_even_error: "\<bar>rat_of_int (round_half_even x) - x\<bar> \<le> 1 / 2"
proof -
  have "rat_of_int \<lfloor>x\<rfloor> \<le> x" and "x < rat_of_int \<lfloor>x\<rfloor> + 1" by linarith+
  then show ?thesis by (auto simp: round_half_even_def Let_def abs_le_iff)
qed

lemma round_pos_error:
  assumes "0 < q" and "round_pos q = Some r"
  shows "\<bar>r - q\<bar> \<le> pow2 (max (floor_log2 q - 52) (- 1074)) / 2"
proof -
  define ex where "ex = max (floor_log2 q - 52) (- 1074)"
  have p: "0 < pow2 ex" by (rule pow2_pos)
  have r: "r = rat_of_int (round_half_even (q / pow2 ex)) * pow2 ex"
    using assms(2) by (auto simp: round_pos_def Let_def ex_def split: if_splits)
  have "r - q = (rat_of_int (round_half_even (q / pow2 ex)) - q / pow2 ex) * pow2 ex"
    using p by (simp add: r field_simps)
  then have "\<bar>r - q\<bar> = \<bar>rat_of_int (round_half_even (q / pow2 ex)) - q / pow2 ex\<bar> * pow2 ex"
    using p by (simp add: abs_mult)
  also have "\<dots> \<le> 1 / 2 * pow2 ex"
    using round_half_even_error [of "q / pow2 ex"] p by (simp only: mult_right_mono less_imp_le)
  finally show ?thesis by (simp add: ex_def)
qed

lemma pow2_power_int: "pow2 e = 2 powi e"
  by (simp add: pow2_def power_int_def field_simps)

lemma round_half_even_upper: "round_half_even x \<le> \<lfloor>x\<rfloor> + 1"
  by (simp add: round_half_even_def Let_def)

lemma round_pos_mantissa:
  assumes "0 < q" and "round_pos q = Some r"
  shows "\<exists>m. r = rat_of_int m * pow2 (max (floor_log2 q - 52) (- 1074)) \<and> 0 \<le> m \<and> m \<le> 2 ^ 53"
proof -
  define ex where "ex = max (floor_log2 q - 52) (- 1074)"
  define x where "x = q / pow2 ex"
  have p: "0 < pow2 ex" by (rule pow2_pos)
  have r: "r = rat_of_int (round_half_even x) * pow2 ex"
    using assms(2) by (auto simp: round_pos_def Let_def ex_def x_def split: if_splits)
  have x0: "0 \<le> x" using assms(1) p by (simp add: x_def)
  have "floor_log2 q + 1 - ex \<le> 53" by (simp add: ex_def)
  then have le: "(2::rat) powi (floor_log2 q + 1 - ex) \<le> 2 powi 53"
    by (intro power_int_increasing) simp_all
  have "q < pow2 (floor_log2 q + 1)" using floor_log2_bounds [OF assms(1)] by simp
  then have "x < pow2 (floor_log2 q + 1) / pow2 ex"
    using p by (simp add: x_def divide_strict_right_mono)
  also have "\<dots> = 2 powi (floor_log2 q + 1 - ex)"
    by (simp add: pow2_power_int power_int_diff)
  also note le
  finally have "x < 2 ^ 53" by simp
  then have "x < rat_of_int (2 ^ 53)" by simp
  then have "\<lfloor>x\<rfloor> < 2 ^ 53" by (simp only: floor_less_iff)
  with round_half_even_upper [of x] have "round_half_even x \<le> 2 ^ 53" by linarith
  moreover have "0 \<le> round_half_even x" using x0 by (rule round_half_even_nonneg)
  ultimately show ?thesis using r by (auto simp: ex_def)
qed

lemma nearest_integer: "\<bar>rat_of_int \<lfloor>p + 1 / 2\<rfloor> - p\<bar> \<le> 1 / 2"
  by linarith

lemma accepted_product:
  assumes "\<not> isNaN a" and "\<not> num_le a (Finite 0)"
  shows "num_mul a pow10_USDC_DECIMALS = PosInf
         \<or> (\<exists>p. num_mul a pow10_USDC_DECIMALS = Finite p \<and> 0 \<le> p)"
proof -
  from accepted_number [OF assms] show ?thesis
  proof
    assume "a = PosInf"
    then show ?thesis by (simp add: pow10_USDC_DECIMALS_def)
  next
    assume "\<exists>q. a = Finite q \<and> 0 < q"
    then obtain q where q: "a = Finite q" "0 < q" by blast
    then have "0 < q * 10 ^ USDC_DECIMALS" by simp
    from round_double_pos [OF this] q show ?thesis by (simp add: pow10_USDC_DECIMALS_def)
  qed
qed

text \<open>
  C1, as amended. For every amount accepted by validation, the parsed double is
  multiplied by \<open>10^6\<close> in double arithmetic. When that product is finite it is not
  negative and the base-unit amount is the integer nearest to it (the larger one at a
  tie), an unbounded integer; the input \<open>0.1\<close> gives exactly 100000 and the input
  \<open>1.0000005\<close> gives exactly 1000001. When the product overflows to \<open>Infinity\<close>,
  \<open>BigInt\<close> throws a \<open>RangeError\<close> and there is no amount.
\<close>

theorem amount_conversion:
  assumes "validate env st = Inr (w, r, a)"
  shows "(case num_mul a pow10_USDC_DECIMALS of
            Finite p \<Rightarrow>
              0 \<le> p \<and> transferAmount_of env a = Inr \<lfloor>p + 1 / 2\<rfloor>
              \<and> \<bar>rat_of_int \<lfloor>p + 1 / 2\<rfloor> - p\<bar> \<le> 1 / 2
          | PosInf \<Rightarrow> transferAmount_of env a = Inl (BigInt_RangeError env PosInf)
          | _ \<Rightarrow> False)
         \<and> (if trim (amount st) = ''0.1'' then transferAmount_of env a = Inr 100000 else True)
         \<and> (if trim (amount st) = ''1.0000005'' then transferAmount_of env a = Inr 1000001
            else True)"
proof -
  note ok = validate_InrD [OF assms]
  have general: "(case num_mul a pow10_USDC_DECIMALS of
            Finite p \<Rightarrow>
              0 \<le> p \<and> transferAmount_of env a = Inr \<lfloor>p + 1 / 2\<rfloor>
              \<and> \<bar>rat_of_int \<lfloor>p + 1 / 2\<rfloor> - p\<bar> \<le> 1 / 2
          | PosInf \<Rightarrow> transferAmount_of env a = Inl (BigInt_RangeError env PosInf)
          | _ \<Rightarrow> False)"
    using accepted_product [OF ok(6) ok(7)] nearest_integer
    by (auto simp: transferAmount_of_def)
  have e1: "transferAmount_of env a = Inr 100000" if "trim (amount st) = ''0.1''"
    using that ok(3)
    by (simp add: parseFloat_examples transferAmount_of_def pow10_USDC_DECIMALS_def USDC_DECIMALS_def
        double_eval)
  have e2: "transferAmount_of env a = Inr 1000001" if "trim (amount st) = ''1.0000005''"
    using that ok(3)
    by (simp add: parseFloat_examples transferAmount_of_def pow10_USDC_DECIMALS_def USDC_DECIMALS_def
        double_eval)
  from general e1 e2 show ?thesis by simp
qed

theorem amount_conversion_witness:
  "validate (sample_env (Inr 2000000) (Inr 0) (Inr (Finite 0)) (Inr ''sig''))
       (sample_form ''B0b'' ''0.1'') =
     Inr (alice, ''B0b'', Finite (3602879701896397 / 36028797018963968))
   \<and> transferAmount_of (sample_env (Inr 2000000) (Inr 0) (Inr (Finite 0)) (Inr ''sig''))
       (Finite (3602879701896397 / 36028797018963968)) = Inr 100000
   \<and> transferAmount_of (sample_env (Inr 2000000) (Inr 0) (Inr (Finite 0)) (Inr ''sig''))
       (Finite (2251800939585155 / 2251799813685248)) = Inr 1000001"
  using amount_conversion [OF sample_validate_amounts(1),
      of "Inr 2000000" "Inr 0" "Inr (Finite 0)" "Inr ''sig''"]
    amount_conversion [OF sample_validate_amounts(2),
      of "Inr 2000000" "Inr 0" "Inr (Finite 0)" "Inr ''sig''"]
    sample_validate_amounts(1) [of "Inr 2000000" "Inr 0" "Inr (Finite 0)" "Inr ''sig''"]
  by (simp add: sample_form_def trim_def is_js_space_def)

text \<open>
  The specification promises an integer for every accepted amount. The amount
  \<open>1e303\<close> is accepted (it parses to a finite positive double), its product with
  \<open>10^6\<close> overflows, and the conversion throws: the submission ends in the generic
  error state with no action performed.
\<close>

theorem amount_conversion_counterexample:
  "validate (sample_env (Inr 2000000) (Inr 0) (Inr (Finite 0)) (Inr ''sig''))
       (sample_form ''B0b'' ''1e303'') =
     Inr (alice, ''B0b'', parseFloat ''1e303'')
   \<and> transferAmount_of (sample_env (Inr 2000000) (Inr 0) (Inr (Finite 0)) (Inr ''sig''))
       (parseFloat ''1e303'') = Inl (JsError ''RangeError'' ''not an integer'')
   \<and> handleSubmit (sample_env (Inr 2000000) (Inr 0) (Inr (Finite 0)) (Inr ''sig''))
       (sample_form ''B0b'' ''1e303'') =
     ((sample_form ''B0b'' ''1e303'')\<lparr>txState := tx_error ''Transfer failed. Please try again.''\<rparr>,
      [])"
proof -
  let ?e = "sample_env (Inr 2000000) (Inr 0) (Inr (Finite 0)) (Inr ''sig'')"
  have v: "validate ?e (sample_form ''B0b'' ''1e303'') = Inr (alice, ''B0b'', parseFloat ''1e303'')"
    by (simp add: validate_def isValidAddress_def sample_simps parseFloat_1e303 trim_def
        is_js_space_def)
  have t: "transferAmount_of ?e (parseFloat ''1e303'') = Inl (JsError ''RangeError'' ''not an integer'')"
    by (simp add: transferAmount_of_def parseFloat_1e303 overflow_1e303) (simp add: sample_env_def)
  have h: "handleSubmit ?e (sample_form ''B0b'' ''1e303'') =
     ((sample_form ''B0b'' ''1e303'')\<lparr>txState := tx_error ''Transfer failed. Please try again.''\<rparr>,
      [])"
    by (simp add: handleSubmit_def v try_body_def prepare_def t finish_def error_message_def)
  from v t h show ?thesis by simp
qed

text \<open>
  The integer is the one nearest to the double product, not to the decimal the user
  typed: \<open>4.0000005\<close> and \<open>0.5000005\<close> parse to doubles just below the decimal, and
  their amounts are rounded down.
\<close>

lemma conversion_rounds_the_double:
  "transferAmount_of env (parseFloat ''4.0000005'') = Inr 4000000"
  "transferAmount_of env (parseFloat ''0.5000005'') = Inr 500000"
  by (simp_all add: transferAmount_of_def pow10_USDC_DECIMALS_def USDC_DECIMALS_def parse_eval
      double_eval)

subsection \<open>The balance and rent checks\<close>






subsection \<open>The submitted batch\<close>

lemma build_instructions_no_send:
  "SignAndSend i f \<notin> set (snd (build_instructions env w mint rp sATA rATA t))"
  by (simp add: build_instructions_def Let_def split: sum.splits)

lemma build_instructions_result:
  assumes "build_instructions env w mint rp sATA rATA t = (Inr (Inr instrs), evs)"
  shows "instrs =
           (case getAccount env 1 rATA of
              Inl _ \<Rightarrow>
                [CreateAssociatedTokenAccount w rATA rp mint TOKEN_PROGRAM_ID
                   ASSOCIATED_TOKEN_PROGRAM_ID,
                 Transfer sATA rATA w t [] TOKEN_PROGRAM_ID]
            | Inr _ \<Rightarrow> [Transfer sATA rATA w t [] TOKEN_PROGRAM_ID])"
  using assms
  by (auto simp: build_instructions_def Let_def split: sum.splits if_splits)

lemma try_body_signed:
  assumes "SignAndSend i f \<in> set (snd (try_body env w r a))"
  shows "\<exists>t mint rp sATA rATA evs.
           prepare env w r a = Inr (t, mint, rp, sATA, rATA)
           \<and> check_sender_balance env sATA t = None
           \<and> build_instructions env w mint rp sATA rATA t = (Inr (Inr i), evs)
           \<and> f = ''USDC''
           \<and> try_body env w r a =
               ((case signAndSendTransaction env i ''USDC'' of
                   Inl e \<Rightarrow> Inl e | Inr sig \<Rightarrow> Inr (Sent sig)),
                RpcGetAccount sATA # evs @ [SignAndSend i ''USDC''])"
proof (cases "prepare env w r a")
  case (Inl e)
  with assms show ?thesis by (simp add: try_body_def)
next
  case (Inr p)
  obtain t mint rp sATA rATA where p: "p = (t, mint, rp, sATA, rATA)"
    by (cases p) auto
  show ?thesis
  proof (cases "check_sender_balance env sATA t")
    case (Some ts)
    with assms Inr p show ?thesis by (simp add: try_body_def)
  next
    case None
    obtain res evs where b: "build_instructions env w mint rp sATA rATA t = (res, evs)"
      by (cases "build_instructions env w mint rp sATA rATA t")
    have nosend: "SignAndSend i f \<notin> set evs"
      using build_instructions_no_send [of i f env w mint rp sATA rATA t] b by simp
    show ?thesis
    proof (cases res)
      case (Inl e)
      with assms Inr p None b nosend show ?thesis by (simp add: try_body_def)
    next
      case (Inr q)
      note q = this
      show ?thesis
      proof (cases q)
        case (Inl ts)
        with assms \<open>prepare env w r a = Inr p\<close> p None b nosend q show ?thesis
          by (simp add: try_body_def)
      next
        case (Inr instrs)
        with assms \<open>prepare env w r a = Inr p\<close> p None b nosend q
        have "i = instrs \<and> f = ''USDC''"
          by (auto simp: try_body_def split: sum.splits)
        with \<open>prepare env w r a = Inr p\<close> p None b q Inr show ?thesis
          by (auto simp: try_body_def split: sum.splits)
      qed
    qed
  qed
qed

lemma handleSubmit_signed:
  assumes "SignAndSend i f \<in> set (snd (handleSubmit env st))"
  shows "\<exists>w r a. validate env st = Inr (w, r, a)
           \<and> SignAndSend i f \<in> set (snd (try_body env w r a))
           \<and> handleSubmit env st =
               (finish (fst (try_body env w r a)) (st\<lparr>txState := tx_pending\<rparr>),
                snd (try_body env w r a))"
proof (cases "validate env st")
  case (Inl msg)
  with assms show ?thesis by (simp add: handleSubmit_def)
next
  case (Inr v)
  obtain w r a where v: "v = (w, r, a)" by (cases v)
  with Inr assms show ?thesis
    by (auto simp: handleSubmit_def split: prod.splits)
qed

text \<open>
  C5. Whenever \<open>signAndSendTransaction\<close> is called, the fee token is \<open>USDC\<close> and the
  batch is the account-creation instruction followed by the transfer instruction when
  the lookup of the recipient's token account failed, and the transfer instruction
  alone when it succeeded.
\<close>

theorem signed_batch:
  assumes "SignAndSend instrs fee \<in> set (snd (handleSubmit env st))"
  shows "\<exists>w r a t mint rp sATA rATA.
           validate env st = Inr (w, r, a)
           \<and> prepare env w r a = Inr (t, mint, rp, sATA, rATA)
           \<and> fee = ''USDC''
           \<and> instrs =
               (case getAccount env 1 rATA of
                  Inl _ \<Rightarrow>
                    [CreateAssociatedTokenAccount w rATA rp mint TOKEN_PROGRAM_ID
                       ASSOCIATED_TOKEN_PROGRAM_ID,
                     Transfer sATA rATA w t [] TOKEN_PROGRAM_ID]
                | Inr _ \<Rightarrow> [Transfer sATA rATA w t [] TOKEN_PROGRAM_ID])"
proof -
  from handleSubmit_signed [OF assms] obtain w r a where
    v: "validate env st = Inr (w, r, a)" and
    s: "SignAndSend instrs fee \<in> set (snd (try_body env w r a))" by blast
  from try_body_signed [OF s] obtain t mint rp sATA rATA evs where
    p: "prepare env w r a = Inr (t, mint, rp, sATA, rATA)" and
    b: "build_instructions env w mint rp sATA rATA t = (Inr (Inr instrs), evs)" and
    f: "fee = ''USDC''" by blast
  from v p f build_instructions_result [OF b] show ?thesis by blast
qed

theorem signed_batch_witness:
  "SignAndSend [Transfer ''ata-A11ce'' ''ata-B0b'' alice 1500000 [] TOKEN_PROGRAM_ID] ''USDC''
     \<in> set (snd (handleSubmit (sample_env (Inr 2000000) (Inr 0) (Inr (Finite 0)) (Inr ''sig''))
          (sample_form ''B0b'' ''1.5'')))
   \<and> SignAndSend
       [CreateAssociatedTokenAccount alice ''ata-B0b'' bob USDC_MINT_DEVNET TOKEN_PROGRAM_ID
          ASSOCIATED_TOKEN_PROGRAM_ID,
        Transfer ''ata-A11ce'' ''ata-B0b'' alice 1500000 [] TOKEN_PROGRAM_ID] ''USDC''
     \<in> set (snd (handleSubmit
          (sample_env (Inr 2000000) (Inl no_account) (Inr (Finite 5000000)) (Inr ''sig''))
          (sample_form ''B0b'' ''1.5'')))
   \<and> (\<exists>w r a t mint rp sATA rATA.
         validate (sample_env (Inr 2000000) (Inr 0) (Inr (Finite 0)) (Inr ''sig''))
           (sample_form ''B0b'' ''1.5'') = Inr (w, r, a)
         \<and> prepare (sample_env (Inr 2000000) (Inr 0) (Inr (Finite 0)) (Inr ''sig'')) w r a =
             Inr (t, mint, rp, sATA, rATA)
         \<and> [Transfer ''ata-A11ce'' ''ata-B0b'' alice 1500000 [] TOKEN_PROGRAM_ID] =
             [Transfer sATA rATA w t [] TOKEN_PROGRAM_ID])
   \<and> (\<exists>w r a t mint rp sATA rATA.
         validate (sample_env (Inr 2000000) (Inl no_account) (Inr (Finite 5000000)) (Inr ''sig''))
           (sample_form ''B0b'' ''1.5'') = Inr (w, r, a)
         \<and> prepare (sample_env (Inr 2000000) (Inl no_account) (Inr (Finite 5000000)) (Inr ''sig''))
             w r a = Inr (t, mint, rp, sATA, rATA)
         \<and> [CreateAssociatedTokenAccount alice ''ata-B0b'' bob USDC_MINT_DEVNET TOKEN_PROGRAM_ID
              ASSOCIATED_TOKEN_PROGRAM_ID,
            Transfer ''ata-A11ce'' ''ata-B0b'' alice 1500000 [] TOKEN_PROGRAM_ID] =
             [CreateAssociatedTokenAccount w rATA rp mint TOKEN_PROGRAM_ID
                ASSOCIATED_TOKEN_PROGRAM_ID,
              Transfer sATA rATA w t [] TOKEN_PROGRAM_ID])"
proof -
  let ?e1 = "sample_env (Inr 2000000) (Inr 0) (Inr (Finite 0)) (Inr ''sig'')"
  let ?e2 = "sample_env (Inr 2000000) (Inl no_account) (Inr (Finite 5000000)) (Inr ''sig'')"
  let ?t = "Transfer ''ata-A11ce'' ''ata-B0b'' alice 1500000 [] TOKEN_PROGRAM_ID"
  let ?c = "CreateAssociatedTokenAccount alice ''ata-B0b'' bob USDC_MINT_DEVNET TOKEN_PROGRAM_ID
              ASSOCIATED_TOKEN_PROGRAM_ID"
  have m1: "SignAndSend [?t] ''USDC'' \<in> set (snd (handleSubmit ?e1 (sample_form ''B0b'' ''1.5'')))"
    by (simp add: sample_run_existing)
  have m2: "SignAndSend [?c, ?t] ''USDC'' \<in> set (snd (handleSubmit ?e2 (sample_form ''B0b'' ''1.5'')))"
    by (simp add: sample_run_created)
  have g1: "getAccount ?e1 1 x = Inr 0" for x by (simp add: sample_env_def)
  have g2: "getAccount ?e2 1 x = Inl no_account" for x by (simp add: sample_env_def)
  from signed_batch [OF m1] have "\<exists>w r a t mint rp sATA rATA.
         validate ?e1 (sample_form ''B0b'' ''1.5'') = Inr (w, r, a)
         \<and> prepare ?e1 w r a = Inr (t, mint, rp, sATA, rATA)
         \<and> [?t] = [Transfer sATA rATA w t [] TOKEN_PROGRAM_ID]"
    unfolding g1 by (simp only: sum.case) blast
  moreover from signed_batch [OF m2] have "\<exists>w r a t mint rp sATA rATA.
         validate ?e2 (sample_form ''B0b'' ''1.5'') = Inr (w, r, a)
         \<and> prepare ?e2 w r a = Inr (t, mint, rp, sATA, rATA)
         \<and> [?c, ?t] = [CreateAssociatedTokenAccount w rATA rp mint TOKEN_PROGRAM_ID
                ASSOCIATED_TOKEN_PROGRAM_ID, Transfer sATA rATA w t [] TOKEN_PROGRAM_ID]"
    unfolding g2 by (simp only: sum.case) blast
  ultimately show ?thesis using m1 m2 by blast
qed



subsection \<open>The failure handler\<close>














text \<open>
  The values that reach the handler are those thrown by the amount conversion, the
  key constructor, the address derivation, the SOL balance query and
  \<open>signAndSendTransaction\<close>.
\<close>

lemma handler_sources:
  assumes "try_body env w r a = (Inl e, evs)"
  shows "prepare env w r a = Inl e
         \<or> getBalance env w = Inl e
         \<or> (\<exists>instructions. signAndSendTransaction env instructions ''USDC'' = Inl e)"
  using assms
  by (auto simp: try_body_def build_instructions_def Let_def
      split: sum.splits prod.splits option.splits if_splits)




subsection \<open>One submission at a time\<close>

lemma try_body_status:
  assumes "try_body env w r a = (Inr (Returned ts), evs)"
  shows "status ts = Error"
  using assms
  by (auto simp: try_body_def check_sender_balance_def build_instructions_def Let_def tx_error_def
      split: sum.splits prod.splits option.splits if_splits)

lemma finish_status:
  assumes "try_body env w r a = (res, evs)"
  shows "status (txState (finish res st)) \<noteq> Pending"
proof (cases res)
  case (Inl e)
  then show ?thesis by (simp add: finish_def tx_error_def)
next
  case (Inr out)
  show ?thesis
  proof (cases out)
    case (Returned ts)
    with Inr assms try_body_status [of env w r a ts evs] show ?thesis
      by (simp add: finish_def)
  next
    case (Sent sig)
    with Inr show ?thesis by (simp add: finish_def tx_success_def)
  qed
qed

lemma pending_disables: "status (txState f) = Pending \<Longrightarrow> submit_disabled env f"
  by (simp add: submit_disabled_def)

lemma dismiss_shown_not_pending: "dismiss_shown ts \<Longrightarrow> status ts \<noteq> Pending"
  by (auto simp: dismiss_shown_def split: if_splits)

lemma step_preserves:
  assumes "step u u'"
    and "own_in_flight u = (if status (txState (ui_form u)) = Pending then 1 else 0)"
  shows "own_in_flight u' = (if status (txState (ui_form u')) = Pending then 1 else 0)"
  using assms
proof (induction rule: step.induct)
  case (edit_recipient u v)
  then show ?case by simp
next
  case (edit_amount u v)
  then show ?case by simp
next
  case (submit_rejected env u msg)
  then show ?case by (auto simp: submit_disabled_def tx_error_def)
next
  case (submit_started env u v)
  then show ?case by (auto simp: submit_disabled_def tx_pending_def)
next
  case (settle u env w r a res evs)
  from settle.hyps(1) settle.prems have "own_in_flight u = 1"
    by (auto split: if_splits)
  with finish_status [OF settle.hyps(2), of "ui_form u"] show ?case by simp
next
  case (settle_orphaned u)
  then show ?case by simp
next
  case (dismiss u)
  from dismiss_shown_not_pending [OF dismiss.hyps] dismiss.prems show ?case
    by (simp add: handleDismiss_def tx_idle_def)
next
  case (remount u)
  show ?case by (simp add: ui_init_def tx_idle_def)
qed

lemma reachable_invariant:
  assumes "reachable u"
  shows "own_in_flight u = (if status (txState (ui_form u)) = Pending then 1 else 0)"
  using assms
proof (induction rule: reachable.induct)
  case reachable_init
  show ?case by (simp add: ui_init_def tx_idle_def)
next
  case (reachable_step u u')
  from step_preserves [OF reachable_step.hyps(2) reachable_step.IH] show ?case .
qed

lemma step_starts:
  assumes "step u u'" and "own_in_flight u < own_in_flight u'"
  shows "status (txState (ui_form u)) \<noteq> Pending \<and> status (txState (ui_form u')) = Pending"
  using assms
  by (induction rule: step.induct) (auto simp: submit_disabled_def tx_pending_def)

text \<open>
  C9, as amended. In every reachable state the mounted form has at most one submission
  in flight; while its state is pending it has exactly one and the submit button is
  disabled in every environment; and a step that starts a submission leaves a state
  that is not pending and in which the mounted form has none in flight. (Submissions
  of a form unmounted by a disconnect are not counted here: they keep running.)
\<close>

theorem one_submission_in_flight:
  assumes "reachable u"
  shows "own_in_flight u \<le> 1
         \<and> (if status (txState (ui_form u)) = Pending
            then own_in_flight u = 1 \<and> submit_disabled env (ui_form u)
            else own_in_flight u = 0)
         \<and> (\<forall>u'. step u u' \<and> own_in_flight u < own_in_flight u' \<longrightarrow>
               status (txState (ui_form u)) \<noteq> Pending \<and> own_in_flight u = 0
               \<and> own_in_flight u' = 1)"
proof -
  note inv = reachable_invariant [OF assms]
  have a: "own_in_flight u \<le> 1" using inv by (simp split: if_splits)
  have b: "if status (txState (ui_form u)) = Pending
            then own_in_flight u = 1 \<and> submit_disabled env (ui_form u)
            else own_in_flight u = 0"
    using inv pending_disables [of "ui_form u" env] by (simp split: if_splits)
  have c: "status (txState (ui_form u)) \<noteq> Pending \<and> own_in_flight u = 0
           \<and> own_in_flight u' = 1"
    if "step u u' \<and> own_in_flight u < own_in_flight u'" for u'
  proof -
    from that have s: "step u u'" and l: "own_in_flight u < own_in_flight u'" by simp_all
    from step_starts [OF s l] have np: "status (txState (ui_form u)) \<noteq> Pending"
      and p': "status (txState (ui_form u')) = Pending" by simp_all
    have "reachable u'" using assms s by (rule reachable_step)
    from reachable_invariant [OF this] p' have "own_in_flight u' = 1" by simp
    with np inv show ?thesis by simp
  qed
  from a b c show ?thesis by blast
qed

lemma sample_not_disabled:
  "\<not> submit_disabled (sample_env sa ra sb sr) (sample_form ''B0b'' ''1.5'')"
  by (simp add: submit_disabled_def sample_form_def tx_idle_def trim_samples sample_addresses)

lemma sample_fill:
  assumes "reachable \<lparr>ui_form = ui_form ui_init, own_in_flight = 0, orphaned = n\<rparr>"
  shows "reachable \<lparr>ui_form = sample_form ''B0b'' ''1.5'', own_in_flight = 0, orphaned = n\<rparr>"
proof -
  let ?u0 = "\<lparr>ui_form = ui_form ui_init, own_in_flight = 0, orphaned = n\<rparr>"
  let ?u1 = "?u0\<lparr>ui_form := (ui_form ?u0)\<lparr>recipient := ''B0b''\<rparr>\<rparr>"
  let ?u2 = "?u1\<lparr>ui_form := (ui_form ?u1)\<lparr>amount := ''1.5''\<rparr>\<rparr>"
  have "reachable ?u1" by (rule reachable_step [OF assms edit_recipient])
  then have "reachable ?u2" by (rule reachable_step [OF _ edit_amount])
  then show ?thesis by (simp add: ui_init_def sample_form_def)
qed

lemma sample_submit_step:
  "step \<lparr>ui_form = sample_form ''B0b'' ''1.5'', own_in_flight = 0, orphaned = n\<rparr>
        \<lparr>ui_form = (sample_form ''B0b'' ''1.5'')\<lparr>txState := tx_pending\<rparr>,
         own_in_flight = 1, orphaned = n\<rparr>"
proof -
  let ?e = "sample_env (Inr 2000000) (Inr 0) (Inr (Finite 0)) (Inr ''sig'')"
  let ?u = "\<lparr>ui_form = sample_form ''B0b'' ''1.5'', own_in_flight = 0, orphaned = n\<rparr>"
  have "\<not> submit_disabled ?e (ui_form ?u)"
    using sample_not_disabled by simp
  moreover have "validate ?e (ui_form ?u) = Inr (alice, ''B0b'', Finite (3 / 2))"
    using sample_validate by simp
  ultimately have
    "step ?u (?u\<lparr>ui_form := (ui_form ?u)\<lparr>txState := tx_pending\<rparr>,
                 own_in_flight := own_in_flight ?u + 1\<rparr>)"
    by (rule submit_started)
  then show ?thesis by simp
qed

lemma sample_filled_reachable:
  "reachable \<lparr>ui_form = sample_form ''B0b'' ''1.5'', own_in_flight = 0, orphaned = 0\<rparr>"
proof -
  have "reachable \<lparr>ui_form = ui_form ui_init, own_in_flight = 0, orphaned = 0\<rparr>"
    using reachable_init by (simp add: ui_init_def)
  then show ?thesis by (rule sample_fill)
qed

theorem one_submission_in_flight_witness:
  "reachable \<lparr>ui_form = sample_form ''B0b'' ''1.5'', own_in_flight = 0, orphaned = 0\<rparr>
   \<and> step \<lparr>ui_form = sample_form ''B0b'' ''1.5'', own_in_flight = 0, orphaned = 0\<rparr>
        \<lparr>ui_form = (sample_form ''B0b'' ''1.5'')\<lparr>txState := tx_pending\<rparr>,
         own_in_flight = 1, orphaned = 0\<rparr>
   \<and> status (txState (sample_form ''B0b'' ''1.5'')) \<noteq> Pending
   \<and> reachable \<lparr>ui_form = (sample_form ''B0b'' ''1.5'')\<lparr>txState := tx_pending\<rparr>,
                 own_in_flight = 1, orphaned = 0\<rparr>
   \<and> submit_disabled (sample_env (Inr 2000000) (Inr 0) (Inr (Finite 0)) (Inr ''sig''))
        ((sample_form ''B0b'' ''1.5'')\<lparr>txState := tx_pending\<rparr>)"
proof -
  let ?e = "sample_env (Inr 2000000) (Inr 0) (Inr (Finite 0)) (Inr ''sig'')"
  let ?u = "\<lparr>ui_form = sample_form ''B0b'' ''1.5'', own_in_flight = 0, orphaned = 0\<rparr>"
  let ?u' = "\<lparr>ui_form = (sample_form ''B0b'' ''1.5'')\<lparr>txState := tx_pending\<rparr>,
             own_in_flight = 1, orphaned = 0\<rparr>"
  have r': "reachable ?u'"
    using sample_filled_reachable sample_submit_step by (rule reachable_step)
  have "status (txState (ui_form ?u)) \<noteq> Pending"
    using one_submission_in_flight [OF sample_filled_reachable, of ?e] sample_submit_step
    by (simp add: sample_form_def tx_idle_def)
  moreover have "submit_disabled ?e (ui_form ?u')"
    using one_submission_in_flight [OF r', of ?e] by (simp add: tx_pending_def)
  ultimately show ?thesis
    using sample_filled_reachable sample_submit_step r' by simp
qed

text \<open>
  The specification promises at most one submission in flight in every reachable
  state. A first submission is started, the wallet is disconnected and connected
  again while it is awaiting, and the fresh form starts a second one: two submissions
  are in flight.
\<close>

theorem one_submission_in_flight_counterexample:
  "reachable \<lparr>ui_form = (sample_form ''B0b'' ''1.5'')\<lparr>txState := tx_pending\<rparr>,
               own_in_flight = 1, orphaned = 1\<rparr>
   \<and> in_flight \<lparr>ui_form = (sample_form ''B0b'' ''1.5'')\<lparr>txState := tx_pending\<rparr>,
                 own_in_flight = 1, orphaned = 1\<rparr> = 2"
proof -
  let ?u1 = "\<lparr>ui_form = (sample_form ''B0b'' ''1.5'')\<lparr>txState := tx_pending\<rparr>,
             own_in_flight = 1, orphaned = 0\<rparr>"
  have "reachable ?u1"
    using sample_filled_reachable sample_submit_step by (rule reachable_step)
  then have "reachable \<lparr>ui_form = ui_form ui_init, own_in_flight = 0,
                        orphaned = orphaned ?u1 + own_in_flight ?u1\<rparr>"
    by (rule reachable_step [OF _ remount])
  then have "reachable \<lparr>ui_form = ui_form ui_init, own_in_flight = 0, orphaned = 1\<rparr>"
    by simp
  then have "reachable \<lparr>ui_form = sample_form ''B0b'' ''1.5'', own_in_flight = 0, orphaned = 1\<rparr>"
    by (rule sample_fill)
  then have "reachable \<lparr>ui_form = (sample_form ''B0b'' ''1.5'')\<lparr>txState := tx_pending\<rparr>,
                        own_in_flight = 1, orphaned = 1\<rparr>"
    using sample_submit_step by (rule reachable_step)
  then show ?thesis by (simp add: in_flight_def)
qed


section \<open>Theorems about the balance refresh\<close>

lemma fetch_body_throws_iff:
  "(\<exists>e evs. fetch_body env sw = (Inl e, evs)) \<longleftrightarrow>
     (case PublicKey_new env sw of
        Inl e \<Rightarrow> True
      | Inr pk \<Rightarrow> (case getBalance env pk of Inl e \<Rightarrow> True | Inr b \<Rightarrow> False))"
  by (auto simp: fetch_body_def split: sum.splits prod.splits)

lemma fetch_usdc_cases:
  "(case PublicKey_new env USDC_MINT_DEVNET of
      Inl e \<Rightarrow> fst (fetch_usdc env pk) = Finite 0
    | Inr mint \<Rightarrow>
        (case getAssociatedTokenAddress env mint pk True of
           Inl e \<Rightarrow> fst (fetch_usdc env pk) = Finite 0
         | Inr ata \<Rightarrow>
             (case getAccount env 0 ata of
                Inl e \<Rightarrow> fst (fetch_usdc env pk) = Finite 0
              | Inr tokenAmount \<Rightarrow>
                  fst (fetch_usdc env pk) =
                    num_div (Number_of_bigint tokenAmount) (Finite 1000000))))"
  by (simp add: fetch_usdc_def pow10_USDC_DECIMALS_def USDC_DECIMALS_def split: sum.splits)

text \<open>
  C8, as amended. For a refresh with a wallet address: when the wallet key cannot be
  built or the SOL balance query fails, both \<open>sol\<close> and \<open>usdc\<close> are set to null
  whatever the previous snapshot held, and \<open>loading\<close> to false. When the SOL query
  answers, \<open>sol\<close> is the fetched balance and \<open>loading\<close> is false, whatever happens to
  the token part: if the mint key, the address derivation or the token-account query
  fails, \<open>usdc\<close> is set to 0, else to the fetched balance.
\<close>

theorem fetch_failure_clears:
  assumes "wallet_smartWallet env = Some sw" and "sw \<noteq> []"
  shows "(case PublicKey_new env sw of
            Inl e \<Rightarrow> fst (fetchBalances env prev) = \<lparr>sol = None, usdc = None, loading = False\<rparr>
          | Inr pk \<Rightarrow>
              (case getBalance env pk of
                 Inl e \<Rightarrow>
                   fst (fetchBalances env prev) = \<lparr>sol = None, usdc = None, loading = False\<rparr>
               | Inr b \<Rightarrow>
                   fst (fetchBalances env prev) =
                     \<lparr>sol = Some (num_div b LAMPORTS_PER_SOL),
                      usdc = Some (fst (fetch_usdc env pk)), loading = False\<rparr>
                   \<and> (case PublicKey_new env USDC_MINT_DEVNET of
                        Inl e \<Rightarrow> fst (fetch_usdc env pk) = Finite 0
                      | Inr mint \<Rightarrow>
                          (case getAssociatedTokenAddress env mint pk True of
                             Inl e \<Rightarrow> fst (fetch_usdc env pk) = Finite 0
                           | Inr ata \<Rightarrow>
                               (case getAccount env 0 ata of
                                  Inl e \<Rightarrow> fst (fetch_usdc env pk) = Finite 0
                                | Inr tokenAmount \<Rightarrow>
                                    fst (fetch_usdc env pk) =
                                      num_div (Number_of_bigint tokenAmount)
                                        (Finite 1000000))))))"
proof (cases "PublicKey_new env sw")
  case (Inl e)
  with assms show ?thesis by (simp add: fetchBalances_def fetch_body_def)
next
  case (Inr pk)
  show ?thesis
  proof (cases "getBalance env pk")
    case (Inl e)
    with assms Inr show ?thesis by (simp add: fetchBalances_def fetch_body_def)
  next
    case (Inr b)
    have "fst (fetchBalances env prev) =
        \<lparr>sol = Some (num_div b LAMPORTS_PER_SOL), usdc = Some (fst (fetch_usdc env pk)),
         loading = False\<rparr>"
      using assms \<open>PublicKey_new env sw = Inr pk\<close> Inr
      by (simp add: fetchBalances_def fetch_body_def split: prod.splits)
    with \<open>PublicKey_new env sw = Inr pk\<close> Inr fetch_usdc_cases [of env pk]
    show ?thesis by simp
  qed
qed

lemma sample_wallet:
  "wallet_smartWallet (sample_env sa ra sb sr) = Some alice" "alice \<noteq> []"
  "PublicKey_new (sample_env sa ra sb sr) alice = Inr alice"
  "getBalance (sample_env sa ra sb sr) pk = sb"
  by (simp_all add: sample_env_def alice_def)

theorem fetch_failure_clears_witness:
  "fst (fetchBalances
         (sample_env (Inr 2000000) (Inr 0) (Inl (JsError ''Error'' ''fetch failed'')) (Inr ''sig''))
         \<lparr>sol = Some (Finite 1), usdc = Some (Finite 2), loading = False\<rparr>) =
     \<lparr>sol = None, usdc = None, loading = False\<rparr>"
  using fetch_failure_clears [OF sample_wallet(1,2),
      of "Inr 2000000" "Inr 0" "Inl (JsError ''Error'' ''fetch failed'')" "Inr ''sig''"
         "\<lparr>sol = Some (Finite 1), usdc = Some (Finite 2), loading = False\<rparr>"]
  by (simp add: sample_wallet)

text \<open>
  The specification has every fetch failure clear both values. Here the SOL query
  answers 5 SOL and the token-account query fails: the snapshot stored is 5 SOL and
  0 USDC, not two nulls.
\<close>

theorem fetch_failure_clears_counterexample:
  "fetchBalances
     (sample_env (Inl (JsError ''Error'' ''fetch failed'')) (Inr 0) (Inr (Finite 5000000000))
        (Inr ''sig''))
     \<lparr>sol = Some (Finite 1), usdc = Some (Finite 2), loading = False\<rparr> =
   (\<lparr>sol = Some (Finite 5), usdc = Some (Finite 0), loading = False\<rparr>,
    [RpcGetBalance alice, RpcGetAccount ''ata-A11ce''])"
proof -
  have "num_div (Finite 5000000000) LAMPORTS_PER_SOL = Finite 5"
    by (simp add: LAMPORTS_PER_SOL_def double_eval)
  then show ?thesis
    by (simp add: fetchBalances_def fetch_body_def fetch_usdc_def sample_wallet)
       (simp add: sample_env_def alice_def USDC_MINT_DEVNET_def)
qed

end
